theory Spec2Isabelle
  imports Complex_Main "HOL-Library.Sublist" "HOL-Library.Code_Target_Numeral"
begin

section \<open>JavaScript values\<close>

text \<open>
  The values that travel through the parameter maps, tool arguments and message metadata of
  the rental search engine. Numbers are the integral doubles, \<open>NaN\<close> and the infinities
  (what \<open>parseInt\<close> can return); the numbers of a parameter map are taken to be integral.
  An array holds
  primitive values and an object is a flat list of properties in insertion order, which is
  what the request parameters, the filter objects and the tool arguments look like.
  \<open>BOid\<close> is a MongoDB \<open>ObjectId\<close>, carried by its string form.
\<close>

datatype jsnum = NaN | Fin int | PosInfinity | NegInfinity

datatype bval = BUndef | BNull | BBool bool | BNum jsnum | BStr string | BOid string

datatype jsval = Prim bval | Arr "bval list" | Obj "(string \<times> bval) list"

type_synonym jsobject = "(string \<times> jsval) list"

text \<open>JavaScript truthiness: what \<open>if (v)\<close> and \<open>v || w\<close> test.\<close>

fun truthy_b :: "bval \<Rightarrow> bool" where
  "truthy_b BUndef = False"
| "truthy_b BNull = False"
| "truthy_b (BBool b) = b"
| "truthy_b (BNum NaN) = False"
| "truthy_b (BNum (Fin n)) = (n \<noteq> 0)"
| "truthy_b (BNum PosInfinity) = True"
| "truthy_b (BNum NegInfinity) = True"
| "truthy_b (BStr s) = (s \<noteq> [])"
| "truthy_b (BOid s) = True"

fun truthy :: "jsval \<Rightarrow> bool" where
  "truthy (Prim b) = truthy_b b"
| "truthy (Arr xs) = True"
| "truthy (Obj kvs) = True"

definition js_or :: "jsval \<Rightarrow> jsval \<Rightarrow> jsval" where
  "js_or a b = (if truthy a then a else b)"

text \<open>Property read \<open>o.k\<close> on an object: \<open>undefined\<close> when the property is absent.\<close>

definition get_prop :: "jsobject \<Rightarrow> string \<Rightarrow> jsval" where
  "get_prop ob k = (case map_of ob k of None \<Rightarrow> Prim BUndef | Some v \<Rightarrow> v)"

text \<open>Property write \<open>o[k] = v\<close>: replaces in place, or appends a new property.\<close>

fun put :: "string \<Rightarrow> 'v \<Rightarrow> (string \<times> 'v) list \<Rightarrow> (string \<times> 'v) list" where
  "put k v [] = [(k, v)]"
| "put k v ((k', v') # rest) = (if k = k' then (k, v) # rest else (k', v') # put k v rest)"


text \<open>
  A string is the list of its UTF-16 code units; the model covers the texts whose code
  units are below 256, one \<open>char\<close> each. \<open>Fin n\<close> is the JavaScript number \<open>n\<close>, a
  double that happens to be integral; this includes \<open>-0\<close>, which is \<open>Fin 0\<close>.
\<close>

subsection \<open>Doubles and their text\<close>

fun nat_digits :: "nat \<Rightarrow> string" where
  "nat_digits n =
     (if n < 10 then [''0123456789'' ! n]
      else nat_digits (n div 10) @ [''0123456789'' ! (n mod 10)])"

declare nat_digits.simps [simp del]

fun bitlen :: "nat \<Rightarrow> nat" where
  "bitlen n = (if n = 0 then 0 else Suc (bitlen (n div 2)))"

declare bitlen.simps [simp del]

text \<open>
  The double nearest to a natural number, ties to the even significand (53 bits);
  \<open>None\<close> is \<open>Infinity\<close>, from \<open>2^1024 - 2^970\<close> on.
\<close>

definition round_double :: "nat \<Rightarrow> nat option" where
  "round_double n =
     (if n < 2 ^ 53 then Some n
      else let shift = bitlen n - 53;
               q = n div 2 ^ shift; r = n mod 2 ^ shift; half = 2 ^ (shift - 1);
               v = (if half < r \<or> (r = half \<and> odd q) then q + 1 else q) * 2 ^ shift
           in if 2 ^ 1024 \<le> v then None else Some v)"

text \<open>
  \<open>Number.prototype.toString\<close> for an integral double: the fewest significant digits
  that read back as the same double (the closest such decimal, the even one on a tie),
  written in full below \<open>10^21\<close> and in exponent form from there on. \<open>pick_digits n len k\<close>
  is the decimal with \<open>k\<close> significant digits, if there is one.
\<close>

definition pick_digits :: "nat \<Rightarrow> nat \<Rightarrow> nat \<Rightarrow> nat option" where
  "pick_digits n len k =
     (let u = 10 ^ (len - k); lo = (n div u) * u; hi = lo + u
      in if round_double lo = Some n \<and> round_double hi = Some n then
           Some (if n - lo < hi - n then lo else if hi - n < n - lo then hi
                 else if even (n div u) then lo else hi)
         else if round_double lo = Some n then Some lo
         else if round_double hi = Some n then Some hi
         else None)"

fun first_some :: "'a option list \<Rightarrow> 'a option" where
  "first_some [] = None"
| "first_some (None # rest) = first_some rest"
| "first_some (Some x # rest) = Some x"

definition shortest_decimal :: "nat \<Rightarrow> nat" where
  "shortest_decimal n =
     (case first_some (map (pick_digits n (length (nat_digits n)))
                         [1, 2, 3, 4, 5, 6, 7, 8, 9, 10, 11, 12, 13, 14, 15, 16, 17]) of
        None \<Rightarrow> n | Some c \<Rightarrow> c)"

definition exponent_text :: "nat \<Rightarrow> string" where
  "exponent_text c =
     (let ds = nat_digits c; mant = rev (dropWhile (\<lambda>d. d = CHR ''0'') (rev ds))
      in (case mant of [] \<Rightarrow> ''0'' | [d] \<Rightarrow> [d] | d # rest \<Rightarrow> d # CHR ''.'' # rest)
         @ ''e+'' @ nat_digits (length ds - 1))"

definition nat_text :: "nat \<Rightarrow> string" where
  "nat_text n =
     (case round_double n of
        None \<Rightarrow> ''Infinity''
      | Some d \<Rightarrow>
          let c = (if d < 2 ^ 53 then d else shortest_decimal d)
          in if c < 10 ^ 21 then nat_digits c else exponent_text c)"

definition int_toString :: "int \<Rightarrow> string" where
  "int_toString n = (if n < 0 then CHR ''-'' # nat_text (nat (- n)) else nat_text (nat n))"

fun number_text :: "jsnum \<Rightarrow> string" where
  "number_text NaN = ''NaN''"
| "number_text (Fin n) = int_toString n"
| "number_text PosInfinity = ''Infinity''"
| "number_text NegInfinity = ''-Infinity''"

section \<open>Hybrid search (src/services/vector-search.service.js)\<close>

text \<open>
  The \<open>_id\<close> of a stored rental: an \<open>ObjectId\<close>, a number or a string (the legacy
  listings). \<open>id_toString\<close> is \<open>_id.toString()\<close>, the identity used for deduplication.
\<close>

datatype docid = IdOid string | IdNum int | IdStr string

fun id_toString :: "docid \<Rightarrow> string" where
  "id_toString (IdOid h) = h"
| "id_toString (IdNum n) = int_toString n"
| "id_toString (IdStr s) = s"

text \<open>
  A search result: the projected listing with its \<open>_id\<close> and, for vector results, the
  \<open>vectorSearchScore\<close>. Lexical results come without a score.
\<close>

record hit =
  hit_id :: docid
  score :: "rat option"
  payload :: jsobject

definition idstr :: "hit \<Rightarrow> string" where
  "idstr r = id_toString (hit_id r)"

definition vectorIds :: "hit list \<Rightarrow> string set" where
  "vectorIds vs = set (map idstr vs)"

text \<open>
  The loop over \<open>traditionalResults\<close>: a result whose identity is not among the vector
  identities is pushed with \<open>score: 0.5\<close>; the others are skipped.
\<close>

fun push_lexical :: "string set \<Rightarrow> hit list \<Rightarrow> hit list \<Rightarrow> hit list" where
  "push_lexical ids combined [] = combined"
| "push_lexical ids combined (r # rest) =
     (if idstr r \<notin> ids then push_lexical ids (combined @ [r\<lparr>score := Some (1/2)\<rparr>]) rest
      else push_lexical ids combined rest)"

definition combinedResults :: "hit list \<Rightarrow> hit list \<Rightarrow> hit list" where
  "combinedResults vs ts = push_lexical (vectorIds vs) vs ts"

text \<open>\<open>r.score || 0\<close>: a missing score counts as 0.\<close>

definition score_or_zero :: "hit \<Rightarrow> rat" where
  "score_or_zero r = (case score r of None \<Rightarrow> 0 | Some s \<Rightarrow> s)"

text \<open>
  \<open>.sort((a, b) => (b.score || 0) - (a.score || 0))\<close>: \<open>Array.prototype.sort\<close> is
  stable, so this is the stable sort by descending score, which insertion by the key
  \<open>- score\<close> computes. \<open>.slice(0, limit)\<close> counts a negative end from the end of the
  array.
\<close>

definition sort_by_score :: "hit list \<Rightarrow> hit list" where
  "sort_by_score rs = sort_key (\<lambda>r. - score_or_zero r) rs"

definition slice0 :: "int \<Rightarrow> 'a list \<Rightarrow> 'a list" where
  "slice0 e xs = take (nat (if e < 0 then int (length xs) + e else e)) xs"

definition fuse :: "hit list \<Rightarrow> hit list \<Rightarrow> int \<Rightarrow> hit list" where
  "fuse vs ts limit = slice0 limit (sort_by_score (combinedResults vs ts))"

text \<open>
  \<open>vectorSearch\<close> first asks for the embedding of the query and then runs the
  \<open>$vectorSearch\<close> aggregation; each of the two calls either throws (\<open>Inl\<close> with the
  error) or answers, and \<open>vectorSearch\<close> rethrows what it catches.
\<close>

definition vectorSearch :: "string + 'e \<Rightarrow> ('e \<Rightarrow> string + hit list) \<Rightarrow> string + hit list" where
  "vectorSearch embedding aggregate =
     (case embedding of Inl err \<Rightarrow> Inl err | Inr v \<Rightarrow> aggregate v)"

text \<open>
  \<open>Promise.all\<close> of two promises: it resolves with both values, and rejects as soon as one
  of them rejects. When both reject, the error is the one of the promise that rejected
  first (\<open>second_first\<close> tells which).
\<close>

definition promise_all2 :: "bool \<Rightarrow> string + 'a \<Rightarrow> string + 'b \<Rightarrow> string + ('a \<times> 'b)" where
  "promise_all2 second_first a b =
     (case a of
        Inl ea \<Rightarrow> (case b of Inl eb \<Rightarrow> Inl (if second_first then eb else ea) | Inr y \<Rightarrow> Inl ea)
      | Inr x \<Rightarrow> (case b of Inl eb \<Rightarrow> Inl eb | Inr y \<Rightarrow> Inr (x, y)))"

text \<open>
  \<open>hybridSearch(queryText, filters, limit)\<close>. The two searches are the collaborators:
  \<open>embedding\<close> and \<open>aggregate\<close> are the outcomes of the embedding and vector index calls,
  \<open>traditional\<close> the outcome of the lexical search. The \<open>catch\<close> block rethrows.
\<close>

definition hybridSearch ::
  "bool \<Rightarrow> string + 'e \<Rightarrow> ('e \<Rightarrow> string + hit list) \<Rightarrow> string + hit list \<Rightarrow> int
     \<Rightarrow> string + hit list" where
  "hybridSearch second_first embedding aggregate traditional limit =
     (case promise_all2 second_first (vectorSearch embedding aggregate) traditional of
        Inl err \<Rightarrow> Inl err
      | Inr (vectorResults, traditionalResults) \<Rightarrow>
          Inr (fuse vectorResults traditionalResults limit))"

text \<open>
  Proof device: in a result list, every lexical-only hit that stands before a semantic hit
  has the strictly larger score.
\<close>

fun lexical_before_semantic_ok :: "string set \<Rightarrow> hit list \<Rightarrow> bool" where
  "lexical_before_semantic_ok V [] = True"
| "lexical_before_semantic_ok V (x # xs) =
     ((idstr x \<notin> V \<longrightarrow> (\<forall>s \<in> set xs. idstr s \<in> V \<longrightarrow> score_or_zero s < score_or_zero x))
      \<and> lexical_before_semantic_ok V xs)"

text \<open>Sample results used to run the definitions.\<close>

definition hit_a :: hit where
  "hit_a = \<lparr>hit_id = IdStr ''a'', score = Some (2/5), payload = []\<rparr>"

definition hit_b :: hit where
  "hit_b = \<lparr>hit_id = IdStr ''b'', score = None, payload = []\<rparr>"

definition hit_c :: hit where
  "hit_c = \<lparr>hit_id = IdStr ''c'', score = Some (9/10), payload = []\<rparr>"

definition hit_a_lexical :: hit where
  "hit_a_lexical = \<lparr>hit_id = IdStr ''a'', score = None, payload = [(''name'', Prim (BStr ''Loft''))]\<rparr>"

definition hit_n5 :: hit where
  "hit_n5 = \<lparr>hit_id = IdNum 5, score = None, payload = []\<rparr>"

definition hit_s5 :: hit where
  "hit_s5 = \<lparr>hit_id = IdStr ''5'', score = None, payload = []\<rparr>"

definition sample_aggregate :: "rat list \<Rightarrow> string + hit list" where
  "sample_aggregate v = Inr [hit_c, hit_a]"


section \<open>Tool calls and search metadata (src/agents/rental-rag-agent.js)\<close>

text \<open>
  The arguments of a tool call as \<open>extractToolCallsFromResult\<close> leaves them: the object
  parsed from the JSON payload, the raw string when parsing failed, or nothing. A property
  read on anything but an object gives \<open>undefined\<close> (\<open>arguments?.query\<close>).
\<close>

datatype tool_args = ArgsObject jsobject | ArgsRaw string | ArgsMissing

definition argument :: "tool_args \<Rightarrow> string \<Rightarrow> jsval" where
  "argument a k =
     (case a of ArgsObject ob \<Rightarrow> get_prop ob k | ArgsRaw s \<Rightarrow> Prim BUndef | ArgsMissing \<Rightarrow> Prim BUndef)"

record tool_call =
  name :: string
  arguments :: tool_args

text \<open>
  What the model runtime returns: the final text and the new items of the run. A
  \<open>tool_call_item\<close> carries the raw call (when present), whose arguments are a JSON string
  or an already parsed value.
\<close>

datatype raw_args = RawString string | RawValue tool_args

record raw_tool_call =
  raw_name :: string
  raw_arguments :: raw_args

datatype run_item = ToolCallItem "raw_tool_call option" | OtherItem

record run_result =
  finalOutput :: "string option"
  newItems :: "run_item list option"

text \<open>
  \<open>extractToolCallsFromResult\<close>. \<open>json_parse\<close> is \<open>JSON.parse\<close>, \<open>None\<close> when it throws:
  the arguments then stay the raw string and the call is still recorded. The result is
  \<open>null\<close> when no tool call was found.
\<close>

fun collect_tool_calls :: "(string \<Rightarrow> tool_args option) \<Rightarrow> run_item list \<Rightarrow> tool_call list" where
  "collect_tool_calls json_parse [] = []"
| "collect_tool_calls json_parse (OtherItem # items) = collect_tool_calls json_parse items"
| "collect_tool_calls json_parse (ToolCallItem None # items) = collect_tool_calls json_parse items"
| "collect_tool_calls json_parse (ToolCallItem (Some toolCall) # items) =
     \<lparr>name = raw_name toolCall,
      arguments = (case raw_arguments toolCall of
                     RawValue a \<Rightarrow> a
                   | RawString s \<Rightarrow> (case json_parse s of None \<Rightarrow> ArgsRaw s | Some a \<Rightarrow> a))\<rparr>
     # collect_tool_calls json_parse items"

definition extractToolCallsFromResult ::
  "(string \<Rightarrow> tool_args option) \<Rightarrow> run_result \<Rightarrow> tool_call list option" where
  "extractToolCallsFromResult json_parse result =
     (let toolCalls = (case newItems result of None \<Rightarrow> [] | Some items \<Rightarrow> collect_tool_calls json_parse items)
      in if length toolCalls > 0 then Some toolCalls else None)"

text \<open>The metadata object built by \<open>extractSearchMetadata\<close>; an absent property is \<open>None\<close>.\<close>

record search_metadata =
  search_type :: "string option"
  search_query :: "jsval option"
  search_filters :: "jsval option"
  search_limit :: "jsval option"
  rental_ids :: "docid list option"
  property_details_requested :: "bool option"
  property_ids :: "jsval list option"

definition empty_metadata :: search_metadata where
  "empty_metadata = \<lparr>search_type = None, search_query = None, search_filters = None,
     search_limit = None, rental_ids = None, property_details_requested = None,
     property_ids = None\<rparr>"

text \<open>
  \<open>extractSearchMetadata(toolCalls, userMessage)\<close>. \<open>lastSearchResults\<close> is the agent's
  field of that name, set by the search tool during the run (\<open>None\<close> while undefined).
\<close>

definition extractSearchMetadata ::
  "hit list option \<Rightarrow> tool_call list option \<Rightarrow> string \<Rightarrow> search_metadata" where
  "extractSearchMetadata lastSearchResults toolCalls userMessage =
     (case toolCalls of
        None \<Rightarrow> empty_metadata
      | Some calls \<Rightarrow>
          if length calls = 0 then empty_metadata
          else
            let searchCalls = filter (\<lambda>call. name call = ''searchRentals'') calls;
                metadata =
                  (if length searchCalls > 0 then
                     let lastSearch = searchCalls ! (length searchCalls - 1) in
                     empty_metadata
                       \<lparr>search_type := Some ''rental_search'',
                        search_query :=
                          Some (js_or (argument (arguments lastSearch) ''query'') (Prim (BStr userMessage))),
                        search_filters :=
                          Some (js_or (argument (arguments lastSearch) ''filters'') (Obj [])),
                        search_limit :=
                          Some (js_or (argument (arguments lastSearch) ''limit'') (Prim (BNum (Fin 5)))),
                        rental_ids := map_option (map hit_id) lastSearchResults\<rparr>
                   else empty_metadata);
                detailsCalls = filter (\<lambda>call. name call = ''getPropertyDetails'') calls
            in if length detailsCalls > 0 then
                 metadata\<lparr>property_details_requested := Some True,
                          property_ids :=
                            Some (map (\<lambda>call. argument (arguments call) ''propertyId'') detailsCalls)\<rparr>
               else metadata)"

text \<open>\<open>s.includes(t)\<close>: \<open>t\<close> occurs in \<open>s\<close> as a contiguous substring.\<close>

fun str_includes :: "string \<Rightarrow> string \<Rightarrow> bool" where
  "str_includes [] t = (t = [])"
| "str_includes (c # cs) t = (prefix t (c # cs) \<or> str_includes cs t)"

text \<open>
  The agent's field \<open>lastSearchResults\<close>: undefined (\<open>None\<close>) until a search ran, then the
  results of the most recent search. It outlives a turn.
\<close>

type_synonym agent_state = "hit list option"

definition no_results_text :: string where
  "no_results_text =
     ''No rental properties found matching your criteria. Try adjusting your search terms or filters.''"

definition search_error_text :: "string \<Rightarrow> string" where
  "search_error_text err =
     ''I encountered an error while searching for rentals: '' @ err @ ''. Please try again.''"

text \<open>
  \<open>handleSearchRentals({ query, filters = {}, limit = 5 })\<close>, the \<open>execute\<close> function of the
  \<open>searchRentals\<close> tool. \<open>search\<close> is \<open>vectorSearchService.hybridSearch\<close> with what it
  finds for the given arguments (\<open>Inl\<close> when it throws), and \<open>render\<close> the JSON text
  of the formatted results. The function returns the tool output for the model and the
  new value of \<open>lastSearchResults\<close>; an error of the search is caught and becomes an
  apology text, so the function itself does not throw.
\<close>

definition handleSearchRentals ::
  "(string \<Rightarrow> jsval \<Rightarrow> int \<Rightarrow> string + hit list) \<Rightarrow> (string \<Rightarrow> jsval \<Rightarrow> hit list \<Rightarrow> string)
     \<Rightarrow> string \<Rightarrow> jsval option \<Rightarrow> int option \<Rightarrow> agent_state \<Rightarrow> string \<times> agent_state" where
  "handleSearchRentals search render query filters_opt limit_opt lastSearchResults =
     (let filters = (case filters_opt of None \<Rightarrow> Obj [] | Some f \<Rightarrow> f);
          limit = (case limit_opt of None \<Rightarrow> 5 | Some l \<Rightarrow> l)
      in case search query filters limit of
           Inl err \<Rightarrow> (search_error_text err, Some [])
         | Inr results \<Rightarrow>
             if length results = 0 then (no_results_text, Some [])
             else (render query filters results, Some results))"

type_synonym search_tool = "string \<Rightarrow> jsval option \<Rightarrow> int option \<Rightarrow> agent_state \<Rightarrow> string \<times> agent_state"

text \<open>
  The model runtime \<open>run(this.agent, history)\<close>: given the search tool it may call, the
  history and the agent's state, it ends with the run result or throws (\<open>Inl\<close> with the
  error message), and leaves the state its tool calls produced.
\<close>

type_synonym runtime = "search_tool \<Rightarrow> string list \<Rightarrow> agent_state \<Rightarrow> (string + run_result) \<times> agent_state"

text \<open>
  The response of \<open>RentalRAGAgent.chat\<close>: on success the final text, the tool calls, the
  \<open>search_performed\<close> flag and the search metadata; on failure the apology and the error
  message.
\<close>

datatype agent_response =
  AgentSuccess (agent_message: "string option") (toolCalls: "tool_call list")
    (search_performed: bool) (agent_metadata: search_metadata)
| AgentFailure string string

definition agent_apology :: string where
  "agent_apology =
     ''I'' @ [CHR 0x27] @ ''m sorry, I encountered an error while processing your request. Please try again.''"

text \<open>
  The history handed to the model runtime: the user messages of the stored history (the
  assistant messages are skipped), in order. A stored user message always has a text; a
  missing one counts as the empty text.
\<close>

fun user_history :: "(string \<times> string option) list \<Rightarrow> string list" where
  "user_history [] = []"
| "user_history ((r, c) # rest) =
     (if r = ''user'' then (case c of None \<Rightarrow> [] | Some text \<Rightarrow> text) # user_history rest
      else user_history rest)"

text \<open>
  \<open>chat(userMessage, conversationHistory, userId)\<close>. \<open>run\<close> is the model runtime and
  \<open>tool\<close> the search tool bound to the agent. The search metadata is extracted with the
  \<open>lastSearchResults\<close> the run left. Everything is inside one \<open>try\<close>, so \<open>chat\<close>
  itself never throws. (The user identifier is only kept for the saved-rentals tool.)
\<close>

definition chat ::
  "(string \<Rightarrow> tool_args option) \<Rightarrow> runtime \<Rightarrow> search_tool \<Rightarrow> agent_state
     \<Rightarrow> string \<Rightarrow> (string \<times> string option) list \<Rightarrow> agent_response \<times> agent_state" where
  "chat json_parse run tool state userMessage conversationHistory =
     (case run tool (user_history conversationHistory @ [userMessage]) state of
        (Inl err, lastSearchResults) \<Rightarrow> (AgentFailure agent_apology err, lastSearchResults)
      | (Inr result, lastSearchResults) \<Rightarrow>
          let extractedToolCalls = extractToolCallsFromResult json_parse result;
              searchPerformed =
                (case extractedToolCalls of
                   None \<Rightarrow> False
                 | Some calls \<Rightarrow>
                     list_ex (\<lambda>call. name call = ''searchRentals'' \<or> name call = ''getPropertyDetails'')
                       calls);
              messageHasSearchResults =
                (case finalOutput result of
                   None \<Rightarrow> searchPerformed
                 | Some out \<Rightarrow>
                     str_includes out ''*search_performed: true*''
                     \<or> str_includes out ''search_performed: true''
                     \<or> str_includes out ''Search performed: true''
                     \<or> searchPerformed);
              searchMetadata = extractSearchMetadata lastSearchResults extractedToolCalls userMessage
          in (AgentSuccess (finalOutput result)
                (case extractedToolCalls of None \<Rightarrow> [] | Some calls \<Rightarrow> calls)
                messageHasSearchResults searchMetadata,
              lastSearchResults))"

section \<open>Conversation store (src/models/conversation.js)\<close>

text \<open>
  The metadata the chat controller attaches to a stored message: the request context for a
  user turn, \<open>{error: true, error_details}\<close> for a failed turn, and the tool and search
  summary for an answered turn. \<open>addMessage\<close> adds \<open>userId\<close> and \<open>isAuthenticated\<close>.
\<close>

datatype message_metadata =
  UserTurn jsobject
| ErrorTurn "string option"
| AssistantTurn nat bool search_metadata


record message =
  msg_id :: string
  role :: string
  content :: "string option"
  timestamp :: nat
  msg_metadata :: message_metadata
  msg_userId :: "string option"
  msg_isAuthenticated :: bool

text \<open>The keys that \<open>updateConversationMetadata\<close> receives from the chat controller.\<close>

record turn_summary =
  lastUserMessage :: string
  lastAssistantResponse :: "string option"
  toolCallsInSession :: nat
  lastSearchMetadata :: search_metadata
  summary_isAuthenticated :: bool
  summary_userId :: "string option"

record conversation =
  conv_userId :: "string option"
  conv_isAuthenticated :: bool
  messages :: "message list option"
  updatedAt :: nat
  totalMessages :: int
  lastActivity :: nat
  userType :: string
  last_turn :: "turn_summary option"

text \<open>
  The \<open>conversations\<close> collection: either the database call throws (with its error
  message), or the collection answers from its documents, keyed by \<open>sessionId\<close>.
\<close>

datatype collection = Unavailable string | Available "string \<Rightarrow> conversation option"

definition findOne :: "collection \<Rightarrow> string \<Rightarrow> string + conversation option" where
  "findOne coll sid = (case coll of Unavailable e \<Rightarrow> Inl e | Available docs \<Rightarrow> Inr (docs sid))"

text \<open>\<open>if (userId)\<close>: a user identifier is truthy when it is a non-empty string.\<close>

definition truthy_id :: "string option \<Rightarrow> bool" where
  "truthy_id u = (case u of None \<Rightarrow> False | Some s \<Rightarrow> s \<noteq> [])"

datatype add_result = AddOk string | AddFail string

text \<open>
  \<open>addMessage(sessionId, role, content, metadata, userId)\<close>: one \<open>updateOne\<close> with
  \<open>upsert: true\<close> that pushes the message, increments \<open>metadata.totalMessages\<close> and sets
  the activity times, creating the document (with the \<open>$setOnInsert\<close> fields) when the
  session is new. A database error is caught and returned as a failure value; the
  collection is then unchanged. \<open>new_id\<close> is the fresh \<open>ObjectId\<close> string and \<open>now\<close> the
  clock.
\<close>

definition addMessage ::
  "collection \<Rightarrow> string \<Rightarrow> nat \<Rightarrow> string \<Rightarrow> string \<Rightarrow> string option \<Rightarrow> message_metadata
     \<Rightarrow> string option \<Rightarrow> collection \<times> add_result" where
  "addMessage coll new_id now sid r c metadata uid =
     (case coll of
        Unavailable e \<Rightarrow> (coll, AddFail e)
      | Available docs \<Rightarrow>
          let message = \<lparr>msg_id = new_id, role = r, content = c, timestamp = now,
                          msg_metadata = metadata,
                          msg_userId = (if truthy_id uid then uid else None),
                          msg_isAuthenticated = (uid \<noteq> None)\<rparr>;
              doc = (case docs sid of
                       None \<Rightarrow>
                         \<lparr>conv_userId = (if truthy_id uid then uid else None),
                          conv_isAuthenticated = truthy_id uid,
                          messages = Some [message],
                          updatedAt = now, totalMessages = 1, lastActivity = now,
                          userType = (if truthy_id uid then ''authenticated'' else ''anonymous''),
                          last_turn = None\<rparr>
                     | Some conv \<Rightarrow>
                         conv\<lparr>messages :=
                                Some ((case messages conv of None \<Rightarrow> [] | Some ms \<Rightarrow> ms) @ [message]),
                              totalMessages := totalMessages conv + 1,
                              updatedAt := now, lastActivity := now\<rparr>)
          in (Available (docs(sid := Some doc)), AddOk new_id))"

text \<open>
  MongoDB's \<open>$slice\<close> projection: a positive count keeps the first elements, a negative
  count the last ones, and a count beyond the length keeps the whole array.
\<close>

definition mongo_slice :: "int \<Rightarrow> 'a list \<Rightarrow> 'a list" where
  "mongo_slice n xs =
     (if 0 \<le> n then take (nat n) xs else drop (length xs - nat (- n)) xs)"

datatype history_result =
  HistoryOk (hist_messages: "message list") (hist_metadata: "conversation option")
| HistoryFail string

text \<open>
  \<open>getConversationHistory(sessionId, limit = 20)\<close>: the projection is
  \<open>messages: { $slice: -limit }\<close>; a missing document gives an empty success, a
  document without messages gives \<open>[]\<close>, a database error gives a failure value.
  The second component of \<open>HistoryOk\<close> is the document whose metadata is returned
  (\<open>None\<close> for \<open>metadata: null\<close>).
\<close>

definition getConversationHistory :: "collection \<Rightarrow> string \<Rightarrow> int option \<Rightarrow> history_result" where
  "getConversationHistory coll sid limit_opt =
     (let limit = (case limit_opt of None \<Rightarrow> 20 | Some l \<Rightarrow> l) in
      case findOne coll sid of
        Inl e \<Rightarrow> HistoryFail e
      | Inr None \<Rightarrow> HistoryOk [] None
      | Inr (Some conv) \<Rightarrow>
          HistoryOk (case map_option (mongo_slice (- limit)) (messages conv) of
                       None \<Rightarrow> [] | Some ms \<Rightarrow> ms)
                    (Some conv))"

text \<open>
  \<open>updateConversationMetadata(sessionId, metadata)\<close>: an \<open>updateOne\<close> without upsert, so
  an unknown session is left alone; a database error is caught.
\<close>

definition updateConversationMetadata :: "collection \<Rightarrow> nat \<Rightarrow> string \<Rightarrow> turn_summary \<Rightarrow> collection" where
  "updateConversationMetadata coll now sid summary =
     (case coll of
        Unavailable e \<Rightarrow> coll
      | Available docs \<Rightarrow>
          (case docs sid of
             None \<Rightarrow> coll
           | Some conv \<Rightarrow>
               Available (docs(sid := Some (conv\<lparr>lastActivity := now, updatedAt := now,
                                                  last_turn := Some summary\<rparr>)))))"

section \<open>JavaScript built-ins used by the filter compiler\<close>

text \<open>
  White space as \<open>trim\<close>, \<open>parseInt\<close> and \<open>Number\<close> skip it: tab, line feed, vertical
  tab, form feed, carriage return, space and the no-break space \<open>U+00A0\<close> (the white
  space and line terminators below 256).
\<close>

definition is_space :: "char \<Rightarrow> bool" where
  "is_space c =
     (c \<in> set [CHR '' '', CHR 0x09, CHR 0x0A, CHR 0x0B, CHR 0x0C, CHR 0x0D, CHR 0xA0])"

definition js_trim :: "string \<Rightarrow> string" where
  "js_trim s = rev (dropWhile is_space (rev (dropWhile is_space s)))"

definition digit_value :: "char \<Rightarrow> nat option" where
  "digit_value c = map_of
     [(CHR ''0'', 0), (CHR ''1'', 1), (CHR ''2'', 2), (CHR ''3'', 3), (CHR ''4'', 4),
      (CHR ''5'', 5), (CHR ''6'', 6), (CHR ''7'', 7), (CHR ''8'', 8), (CHR ''9'', 9),
      (CHR ''a'', 10), (CHR ''b'', 11), (CHR ''c'', 12), (CHR ''d'', 13), (CHR ''e'', 14),
      (CHR ''f'', 15), (CHR ''A'', 10), (CHR ''B'', 11), (CHR ''C'', 12), (CHR ''D'', 13),
      (CHR ''E'', 14), (CHR ''F'', 15)] c"

definition is_digit :: "nat \<Rightarrow> char \<Rightarrow> bool" where
  "is_digit radix c = (case digit_value c of None \<Rightarrow> False | Some d \<Rightarrow> d < radix)"

definition digits_value :: "nat \<Rightarrow> string \<Rightarrow> nat" where
  "digits_value radix ds =
     foldl (\<lambda>acc c. acc * radix + (case digit_value c of None \<Rightarrow> 0 | Some d \<Rightarrow> d)) 0 ds"

definition strip_sign :: "string \<Rightarrow> bool \<times> string" where
  "strip_sign s =
     (case s of
        [] \<Rightarrow> (False, [])
      | c # cs \<Rightarrow> if c = CHR ''-'' then (True, cs) else if c = CHR ''+'' then (False, cs) else (False, s))"

definition hex_prefix :: "string \<Rightarrow> bool" where
  "hex_prefix s = (prefix ''0x'' s \<or> prefix ''0X'' s)"

text \<open>
  \<open>parseInt(s)\<close> without a radix: leading white space and a sign are skipped, \<open>0x\<close>
  selects base 16, and the longest run of digits is read; \<open>NaN\<close> when there is none.
  The result is the double nearest to the digits read, an infinity when they are out of
  range.
\<close>

definition parseInt :: "string \<Rightarrow> jsnum" where
  "parseInt s =
     (let (negative, body) = strip_sign (dropWhile is_space s);
          radix = (if hex_prefix body then 16 else 10);
          ds = takeWhile (is_digit radix) (if hex_prefix body then drop 2 body else body)
      in if ds = [] then NaN
         else (case round_double (digits_value radix ds) of
                 None \<Rightarrow> if negative then NegInfinity else PosInfinity
               | Some v \<Rightarrow> Fin (if negative then - int v else int v)))"

text \<open>
  \<open>isNaN(s)\<close> for a string: \<open>Number(s)\<close> is a number exactly when the trimmed text is
  empty, a signed decimal literal (digits, fraction, exponent, or \<open>Infinity\<close>) or an
  unsigned \<open>0x\<close>, \<open>0o\<close> or \<open>0b\<close> integer.
\<close>

definition exponent_ok :: "string \<Rightarrow> bool" where
  "exponent_ok r =
     (case r of
        [] \<Rightarrow> True
      | c # cs \<Rightarrow>
          (c = CHR ''e'' \<or> c = CHR ''E'')
          \<and> (let ds = snd (strip_sign cs) in ds \<noteq> [] \<and> list_all (is_digit 10) ds))"

definition decimal_literal :: "string \<Rightarrow> bool" where
  "decimal_literal s =
     (let whole = takeWhile (is_digit 10) s; r = dropWhile (is_digit 10) s
      in case r of
           [] \<Rightarrow> whole \<noteq> []
         | c # cs \<Rightarrow>
             if c = CHR ''.'' then
               (whole \<noteq> [] \<or> takeWhile (is_digit 10) cs \<noteq> [])
               \<and> exponent_ok (dropWhile (is_digit 10) cs)
             else whole \<noteq> [] \<and> exponent_ok r)"

definition radix_literal :: "string \<Rightarrow> bool" where
  "radix_literal s =
     (case s of
        z # x # ds \<Rightarrow>
          z = CHR ''0'' \<and> ds \<noteq> []
          \<and> ((x = CHR ''x'' \<or> x = CHR ''X'') \<and> list_all (is_digit 16) ds
             \<or> (x = CHR ''o'' \<or> x = CHR ''O'') \<and> list_all (is_digit 8) ds
             \<or> (x = CHR ''b'' \<or> x = CHR ''B'') \<and> list_all (is_digit 2) ds)
      | _ \<Rightarrow> False)"

definition isNaN :: "string \<Rightarrow> bool" where
  "isNaN s =
     (let t = js_trim s
      in \<not> (t = [] \<or> radix_literal t
             \<or> snd (strip_sign t) = ''Infinity'' \<or> decimal_literal (snd (strip_sign t))))"

text \<open>
  \<open>String(v)\<close>: the text of a value. The method call \<open>v.toString()\<close> gives the same text
  but throws a \<open>TypeError\<close> on \<open>undefined\<close> and \<open>null\<close>.
\<close>

fun bval_text :: "bval \<Rightarrow> string" where
  "bval_text BUndef = ''undefined''"
| "bval_text BNull = ''null''"
| "bval_text (BBool b) = (if b then ''true'' else ''false'')"
| "bval_text (BNum x) = number_text x"
| "bval_text (BStr s) = s"
| "bval_text (BOid h) = h"

fun join_comma :: "string list \<Rightarrow> string" where
  "join_comma [] = []"
| "join_comma [x] = x"
| "join_comma (x # y # rest) = x @ '','' @ join_comma (y # rest)"

fun js_text :: "jsval \<Rightarrow> string" where
  "js_text (Prim b) = bval_text b"
| "js_text (Arr xs) =
     join_comma (map (\<lambda>b. if b = BUndef \<or> b = BNull then [] else bval_text b) xs)"
| "js_text (Obj kvs) = ''[object Object]''"

definition method_toString :: "bval \<Rightarrow> string + string" where
  "method_toString b =
     (if b = BUndef \<or> b = BNull then Inl ''TypeError: Cannot read properties of undefined''
      else Inr (bval_text b))"

text \<open>\<open>s.split(',')\<close>: the pieces between the commas; never an empty list.\<close>

fun split_comma :: "string \<Rightarrow> string list" where
  "split_comma [] = [[]]"
| "split_comma (c # cs) =
     (if c = CHR '','' then [] # split_comma cs
      else (case split_comma cs of [] \<Rightarrow> [[c]] | w # ws \<Rightarrow> (c # w) # ws))"

section \<open>Filter compiler (src/models/rental.js, src/services/vector-search.service.js)\<close>

text \<open>
  A compiled query is an object of conditions in insertion order. A field holds a plain
  value (equality), \<open>{$eq: v}\<close>, \<open>{$in: [...]}\<close>, a range object with \<open>$gte\<close> and
  \<open>$lte\<close>, or \<open>{$regex, $options}\<close>; \<open>$text\<close> holds \<open>{$search: v}\<close>; \<open>$or\<close> holds a
  list of one-field queries.
\<close>

datatype cond =
  Equals jsval
| OpEq jsval
| OpIn "bval list"
| OpRange "jsnum option" "jsnum option"
| OpRegex jsval string
| OpSearch jsval

datatype qentry = Cond cond | OrOf "(string \<times> cond) list"

type_synonym query = "(string \<times> qentry) list"

definition put_if :: "bool \<Rightarrow> string \<Rightarrow> 'v \<Rightarrow> (string \<times> 'v) list \<Rightarrow> (string \<times> 'v) list" where
  "put_if b k v q = (if b then put k v q else q)"

text \<open>
  The list of identifiers of \<open>params.ids\<close>: the array itself, or the pieces of the string;
  any other truthy value has no \<open>split\<close> method.
\<close>

definition ids_of :: "jsval \<Rightarrow> string + bval list" where
  "ids_of v =
     (case v of
        Arr xs \<Rightarrow> Inr xs
      | Prim (BStr s) \<Rightarrow> Inr (map BStr (split_comma s))
      | _ \<Rightarrow> Inl ''TypeError: params.ids.split is not a function'')"

text \<open>
  The \<open>forEach\<close> over the identifiers. \<open>isValid\<close> is \<open>ObjectId.isValid\<close> of the MongoDB
  driver and \<open>newObjectId\<close> its constructor \<open>new ObjectId(text)\<close>, given by the
  hexadecimal string of the identifier it builds (an \<open>ObjectId\<close> is carried by that
  string). A valid text becomes an \<open>ObjectId\<close>, any other one a number when \<open>isNaN\<close>
  says it is numeric (\<open>parseInt\<close> of it) and the text itself otherwise.
\<close>

fun classify_ids ::
  "(string \<Rightarrow> bool) \<Rightarrow> (string \<Rightarrow> string) \<Rightarrow> bval list \<Rightarrow> bval list \<Rightarrow> bval list \<Rightarrow> string + (bval list \<times> bval list)" where
  "classify_ids isValid newObjectId objectIds numericIds [] = Inr (objectIds, numericIds)"
| "classify_ids isValid newObjectId objectIds numericIds (ident # rest) =
     (case method_toString ident of
        Inl err \<Rightarrow> Inl err
      | Inr text \<Rightarrow>
          let trimmedId = js_trim text in
          if isValid trimmedId
          then classify_ids isValid newObjectId (objectIds @ [BOid (newObjectId trimmedId)]) numericIds rest
          else classify_ids isValid newObjectId objectIds
                 (numericIds @ [if \<not> isNaN trimmedId then BNum (parseInt trimmedId)
                                else BStr trimmedId])
                 rest)"

text \<open>The text of an identifier after \<open>toString().trim()\<close>, and its legacy reading.\<close>

definition trimmed_text :: "bval \<Rightarrow> string" where
  "trimmed_text b = js_trim (bval_text b)"

definition legacy_id :: "string \<Rightarrow> bval" where
  "legacy_id t = (if \<not> isNaN t then BNum (parseInt t) else BStr t)"

definition objectIds_of ::
  "(string \<Rightarrow> bool) \<Rightarrow> (string \<Rightarrow> string) \<Rightarrow> bval list \<Rightarrow> bval list" where
  "objectIds_of isValid newObjectId ids =
     map (\<lambda>b. BOid (newObjectId (trimmed_text b))) (filter (\<lambda>b. isValid (trimmed_text b)) ids)"

definition numericIds_of :: "(string \<Rightarrow> bool) \<Rightarrow> bval list \<Rightarrow> bval list" where
  "numericIds_of isValid ids =
     map (\<lambda>b. legacy_id (trimmed_text b)) (filter (\<lambda>b. \<not> isValid (trimmed_text b)) ids)"

text \<open>
  What one listed identifier stands for in the query: the body of the \<open>forEach\<close> for
  that identifier.
\<close>

definition decode_id :: "(string \<Rightarrow> bool) \<Rightarrow> (string \<Rightarrow> string) \<Rightarrow> bval \<Rightarrow> bval" where
  "decode_id isValid newObjectId ident =
     (let trimmedId = trimmed_text ident
      in if isValid trimmedId then BOid (newObjectId trimmedId) else legacy_id trimmedId)"

definition ids_query :: "bval list \<Rightarrow> bval list \<Rightarrow> query" where
  "ids_query objectIds numericIds =
     (if length objectIds > 0 \<and> length numericIds > 0 then
        [(''$or'', OrOf [(''_id'', OpIn objectIds), (''_id'', OpIn numericIds)])]
      else if length objectIds > 0 then [(''_id'', Cond (OpIn objectIds))]
      else if length numericIds > 0 then [(''_id'', Cond (OpIn numericIds))]
      else [])"

definition parseInt_of :: "jsval \<Rightarrow> jsnum" where
  "parseInt_of v = parseInt (js_text v)"

definition is_true_text :: "jsval \<Rightarrow> bool" where
  "is_true_text v = (v = Prim (BStr ''true''))"

text \<open>
  \<open>RentalModel.buildSearchQuery(params)\<close>. The result is \<open>Inl\<close> when a \<open>TypeError\<close> is
  thrown while the identifiers are read.
\<close>

definition buildSearchQuery ::
  "(string \<Rightarrow> bool) \<Rightarrow> (string \<Rightarrow> string) \<Rightarrow> jsobject \<Rightarrow> string + query" where
  "buildSearchQuery isValid newObjectId params =
     (if truthy (get_prop params ''ids'') then
        (case ids_of (get_prop params ''ids'') of
           Inl err \<Rightarrow> Inl err
         | Inr ids \<Rightarrow>
             (case classify_ids isValid newObjectId [] [] ids of
                Inl err \<Rightarrow> Inl err
              | Inr (objectIds, numericIds) \<Rightarrow> Inr (ids_query objectIds numericIds)))
      else
        let p = get_prop params;
            q1 = put_if (truthy (p ''text'')) ''$text'' (Cond (OpSearch (p ''text''))) [];
            q2 = put_if (truthy (p ''location'')) ''$or''
                   (OrOf [(''address.neighbourhood'', OpRegex (p ''location'') ''i''),
                          (''address.market'', OpRegex (p ''location'') ''i''),
                          (''address.country'', OpRegex (p ''location'') ''i'')]) q1;
            q3 = put_if (truthy (p ''property_type'')) ''property_type''
                   (Cond (Equals (p ''property_type''))) q2;
            q4 = put_if (truthy (p ''room_type'')) ''room_type'' (Cond (Equals (p ''room_type''))) q3;
            q5 = put_if (truthy (p ''country'')) ''address.country'' (Cond (Equals (p ''country''))) q4;
            q6 = put_if (truthy (p ''min_price'') \<or> truthy (p ''max_price'')) ''price''
                   (Cond (OpRange
                      (if truthy (p ''min_price'') then Some (parseInt_of (p ''min_price'')) else None)
                      (if truthy (p ''max_price'') then Some (parseInt_of (p ''max_price'')) else None)))
                   q5;
            q7 = put_if (truthy (p ''min_bedrooms'')) ''bedrooms''
                   (Cond (OpRange (Some (parseInt_of (p ''min_bedrooms''))) None)) q6;
            q8 = put_if (truthy (p ''min_bathrooms'')) ''bathrooms''
                   (Cond (OpRange (Some (parseInt_of (p ''min_bathrooms''))) None)) q7;
            q9 = put_if (truthy (p ''min_accommodates'')) ''accommodates''
                   (Cond (OpRange (Some (parseInt_of (p ''min_accommodates''))) None)) q8;
            q10 = put_if (is_true_text (p ''superhost_only'')) ''host.host_is_superhost''
                    (Cond (Equals (Prim (BBool True)))) q9;
            q11 = put_if (is_true_text (p ''instant_bookable'')) ''instant_bookable''
                    (Cond (Equals (Prim (BBool True)))) q10;
            q12 = put_if (truthy (p ''min_rating'')) ''review_scores.review_scores_rating''
                    (Cond (OpRange (Some (parseInt_of (p ''min_rating''))) None)) q11
        in Inr q12)"

text \<open>
  \<open>buildVectorSearchFilter(filters)\<close>, the metadata filter of \<open>$vectorSearch\<close>; \<open>None\<close>
  stands for a missing (falsy) \<open>filters\<close>.
\<close>

definition buildVectorSearchFilter :: "jsobject option \<Rightarrow> query" where
  "buildVectorSearchFilter filters_opt =
     (case filters_opt of
        None \<Rightarrow> []
      | Some filters \<Rightarrow>
          let f = get_prop filters;
              v1 = put_if (truthy (f ''property_type'')) ''property_type''
                     (Cond (OpEq (f ''property_type''))) [];
              v2 = put_if (truthy (f ''room_type'')) ''room_type'' (Cond (OpEq (f ''room_type''))) v1;
              v3 = put_if (truthy (f ''min_price'') \<or> truthy (f ''max_price'')) ''price''
                     (Cond (OpRange
                        (if truthy (f ''min_price'') then Some (parseInt_of (f ''min_price'')) else None)
                        (if truthy (f ''max_price'') then Some (parseInt_of (f ''max_price'')) else None)))
                     v2;
              v4 = put_if (truthy (f ''min_bedrooms'')) ''bedrooms''
                     (Cond (OpRange (Some (parseInt_of (f ''min_bedrooms''))) None)) v3;
              v5 = put_if (truthy (f ''min_accommodates'')) ''accommodates''
                     (Cond (OpRange (Some (parseInt_of (f ''min_accommodates''))) None)) v4;
              v6 = put_if (is_true_text (f ''superhost_only'')) ''host.host_is_superhost''
                     (Cond (OpEq (Prim (BBool True)))) v5;
              v7 = put_if (truthy (f ''country'')) ''address.country'' (Cond (OpEq (f ''country''))) v6;
              v8 = put_if (truthy (f ''location'')) ''address.market'' (Cond (OpEq (f ''location''))) v7
          in v8)"

text \<open>
  What a compiled query selects. A stored listing is read through its scalar fields, by
  path. Equality and \<open>$in\<close> are decided here; how MongoDB decides a range, a regular
  expression or a text search is the parameter \<open>ext\<close>.
\<close>

type_synonym document = "(string \<times> bval) list"

definition field_is :: "document \<Rightarrow> string \<Rightarrow> jsval \<Rightarrow> bool" where
  "field_is doc field v = (case v of Prim b \<Rightarrow> map_of doc field = Some b | _ \<Rightarrow> False)"

definition holds :: "(string \<Rightarrow> cond \<Rightarrow> document \<Rightarrow> bool) \<Rightarrow> string \<Rightarrow> cond \<Rightarrow> document \<Rightarrow> bool" where
  "holds ext field c doc =
     (case c of
        Equals v \<Rightarrow> field_is doc field v
      | OpEq v \<Rightarrow> field_is doc field v
      | OpIn vs \<Rightarrow> (case map_of doc field of None \<Rightarrow> False | Some b \<Rightarrow> b \<in> set vs)
      | OpRange lo hi \<Rightarrow> ext field c doc
      | OpRegex pattern opts \<Rightarrow> ext field c doc
      | OpSearch v \<Rightarrow> ext field c doc)"

definition entry_holds :: "(string \<Rightarrow> cond \<Rightarrow> document \<Rightarrow> bool) \<Rightarrow> document \<Rightarrow> string \<times> qentry \<Rightarrow> bool" where
  "entry_holds ext doc e =
     (case snd e of
        Cond c \<Rightarrow> holds ext (fst e) c doc
      | OrOf alternatives \<Rightarrow> list_ex (\<lambda>a. holds ext (fst a) (snd a) doc) alternatives)"

definition matches :: "(string \<Rightarrow> cond \<Rightarrow> document \<Rightarrow> bool) \<Rightarrow> query \<Rightarrow> document \<Rightarrow> bool" where
  "matches ext q doc = list_all (entry_holds ext doc) q"

text \<open>
  Sample data: the 24 hexadecimal digit test for \<open>ObjectId.isValid\<close> with the
  constructor that reads such a text (the identifier prints in lower case), and the regular
  expression match for a pattern without metacharacters under the option \<open>i\<close>
  (a case-insensitive substring test).
\<close>

definition hex24 :: "string \<Rightarrow> bool" where
  "hex24 s = (length s = 24 \<and> list_all (is_digit 16) s)"

definition lower :: "char \<Rightarrow> char" where
  "lower c =
     (case map_of (zip ''ABCDEFGHIJKLMNOPQRSTUVWXYZ'' ''abcdefghijklmnopqrstuvwxyz'') c of
        None \<Rightarrow> c | Some l \<Rightarrow> l)"

definition hex_lower :: "string \<Rightarrow> string" where
  "hex_lower s = map lower s"

definition literal_regex :: "string \<Rightarrow> cond \<Rightarrow> document \<Rightarrow> bool" where
  "literal_regex field c doc =
     (case c of
        OpRegex (Prim (BStr pattern)) opts \<Rightarrow>
          (case map_of doc field of
             Some (BStr text) \<Rightarrow>
               opts = ''i'' \<and> str_includes (map lower text) (map lower pattern)
           | _ \<Rightarrow> False)
      | _ \<Rightarrow> False)"

definition ids_params :: jsobject where
  "ids_params = [(''ids'', Prim (BStr ''507F1F77BCF86CD799439011, 10006546'')),
     (''min_price'', Prim (BStr ''999999''))]"

definition only_ids_params :: jsobject where
  "only_ids_params = [(''ids'', Prim (BStr ''507F1F77BCF86CD799439011, 10006546''))]"

definition porto_params :: jsobject where
  "porto_params = [(''location'', Prim (BStr ''porto''))]"

definition porto_or :: qentry where
  "porto_or = OrOf [(''address.neighbourhood'', OpRegex (Prim (BStr ''porto'')) ''i''),
                    (''address.market'', OpRegex (Prim (BStr ''porto'')) ''i''),
                    (''address.country'', OpRegex (Prim (BStr ''porto'')) ''i'')]"

definition porto_listing :: document where
  "porto_listing = [(''_id'', BNum (Fin 10006546)), (''address.neighbourhood'', BStr ''Ribeira''),
     (''address.market'', BStr ''Porto''), (''address.country'', BStr ''Portugal'')]"

section \<open>Chat controller (src/controllers/chat.controller.js)\<close>

record chat_request =
  req_message :: string
  conversation_history :: "(string \<times> string option) list"
  req_context :: jsobject
  sessionId :: "string option"
  userId :: "string option"

text \<open>
  What a turn takes from outside the controller: the generated session identifier and
  message identifiers, the clock, the model runtime, the search service and the JSON
  rendering behind the search tool, \<open>JSON.parse\<close>, and whether \<open>NODE_ENV\<close> is
  \<open>development\<close>. \<open>enhanced\<close> is the message enriched with the request context (current
  search, filters, viewed property); building it throws a \<open>TypeError\<close> (\<open>Inl\<close>) when the
  viewed property has no \<open>features\<close>. The writes to the users collection made for an
  authenticated user catch their own errors and do not touch the conversations; they are
  left out.
\<close>

record turn_env =
  generated_session_id :: string
  user_message_id :: string
  assistant_message_id :: string
  clock :: nat
  enhanced :: "string + string"
  run_model :: runtime
  search_service :: "string \<Rightarrow> jsval \<Rightarrow> int \<Rightarrow> string + hit list"
  render_results :: "string \<Rightarrow> jsval \<Rightarrow> hit list \<Rightarrow> string"
  json_parser :: "string \<Rightarrow> tool_args option"
  development :: bool

datatype chat_result =
  ChatSuccess "string option" string nat bool search_metadata
| ChatFailure (failure_message: string) (failure_error: "string option") (failure_sessionId: string)

definition trouble_text :: string where
  "trouble_text =
     ''I'' @ [CHR 0x27] @ ''m having trouble processing your request right now. Please try again.''"

definition session_of :: "turn_env \<Rightarrow> chat_request \<Rightarrow> string" where
  "session_of env req =
     (case sessionId req of
        None \<Rightarrow> generated_session_id env
      | Some s \<Rightarrow> if s \<noteq> [] then s else generated_session_id env)"

text \<open>The two messages a failed turn stores, as \<open>addMessage\<close> builds them.\<close>

definition user_message :: "turn_env \<Rightarrow> chat_request \<Rightarrow> message" where
  "user_message env req =
     \<lparr>msg_id = user_message_id env, role = ''user'', content = Some (req_message req),
      timestamp = clock env, msg_metadata = UserTurn (req_context req),
      msg_userId = (if truthy_id (userId req) then userId req else None),
      msg_isAuthenticated = (userId req \<noteq> None)\<rparr>"

definition error_message :: "turn_env \<Rightarrow> chat_request \<Rightarrow> string \<Rightarrow> string \<Rightarrow> message" where
  "error_message env req text err =
     \<lparr>msg_id = assistant_message_id env, role = ''assistant'', content = Some text,
      timestamp = clock env, msg_metadata = ErrorTurn (Some err),
      msg_userId = (if truthy_id (userId req) then userId req else None),
      msg_isAuthenticated = (userId req \<noteq> None)\<rparr>"

text \<open>The stored messages of a session, as far as the store can tell.\<close>

definition stored_messages :: "collection \<Rightarrow> string \<Rightarrow> message list" where
  "stored_messages coll sid =
     (case coll of
        Unavailable e \<Rightarrow> []
      | Available docs \<Rightarrow>
          (case docs sid of
             None \<Rightarrow> []
           | Some conv \<Rightarrow> (case messages conv of None \<Rightarrow> [] | Some ms \<Rightarrow> ms)))"

text \<open>
  \<open>handleChatMessage\<close>: the stored history is read when the request brings none, the user
  message is stored, the agent is asked, and the answer (or the error message) is stored
  as the assistant message. An exception inside the \<open>try\<close> goes to the \<open>catch\<close> block,
  which stores the error message when there is a session identifier and returns a failure
  object. The result is the store and the agent's state after the turn, and the object
  returned to the caller.
\<close>

definition handleChatMessage ::
  "turn_env \<Rightarrow> collection \<Rightarrow> agent_state \<Rightarrow> chat_request
     \<Rightarrow> (collection \<times> agent_state) \<times> chat_result" where
  "handleChatMessage env coll state req =
     (let sid = session_of env req;
          historyToUse =
            (if length (conversation_history req) = 0 then
               (case getConversationHistory coll sid None of
                  HistoryOk ms meta \<Rightarrow> map (\<lambda>m. (role m, content m)) ms
                | HistoryFail e \<Rightarrow> conversation_history req)
             else conversation_history req);
          coll1 = fst (addMessage coll (user_message_id env) (clock env) sid ''user''
                         (Some (req_message req)) (UserTurn (req_context req)) (userId req))
      in case enhanced env of
           Inl thrown \<Rightarrow>
             (((if sid \<noteq> [] then
                  fst (addMessage coll1 (assistant_message_id env) (clock env) sid ''assistant''
                         (Some trouble_text) (ErrorTurn (Some thrown)) (userId req))
                else coll1),
               state),
              ChatFailure trouble_text (if development env then Some thrown else None)
                (if sid \<noteq> [] then sid else generated_session_id env))
         | Inr enhancedMessage \<Rightarrow>
             (case chat (json_parser env) (run_model env)
                     (handleSearchRentals (search_service env) (render_results env))
                     state enhancedMessage historyToUse of
                (AgentFailure apology err, state') \<Rightarrow>
                  ((fst (addMessage coll1 (assistant_message_id env) (clock env) sid ''assistant''
                           (Some apology) (ErrorTurn (Some err)) (userId req)),
                    state'),
                   ChatFailure apology (Some err) sid)
              | (AgentSuccess answer calls performed metadata, state') \<Rightarrow>
                  let coll2 = fst (addMessage coll1 (assistant_message_id env) (clock env) sid
                                     ''assistant'' answer
                                     (AssistantTurn (length calls) performed metadata) (userId req));
                      coll3 = updateConversationMetadata coll2 (clock env) sid
                                \<lparr>lastUserMessage = req_message req, lastAssistantResponse = answer,
                                 toolCallsInSession = length calls, lastSearchMetadata = metadata,
                                 summary_isAuthenticated = (userId req \<noteq> None),
                                 summary_userId = userId req\<rparr>
                  in ((coll3, state'), ChatSuccess answer sid (length calls) performed metadata)))"

text \<open>Sample data used to run the definitions.\<close>

definition msg :: "string \<Rightarrow> string \<Rightarrow> string \<Rightarrow> message" where
  "msg i r c = \<lparr>msg_id = i, role = r, content = Some c, timestamp = 0,
     msg_metadata = UserTurn [], msg_userId = None, msg_isAuthenticated = False\<rparr>"

definition sample_conv :: conversation where
  "sample_conv = \<lparr>conv_userId = None, conv_isAuthenticated = False,
     messages = Some [msg ''1'' ''user'' ''hi'', msg ''2'' ''assistant'' ''hello'',
                      msg ''3'' ''user'' ''beach house''],
     updatedAt = 0, totalMessages = 3, lastActivity = 0, userType = ''anonymous'',
     last_turn = None\<rparr>"

definition sample_docs :: "string \<Rightarrow> conversation option" where
  "sample_docs = (\<lambda>sid. if sid = ''s1'' then Some sample_conv else None)"

definition call_beach :: tool_call where
  "call_beach = \<lparr>name = ''searchRentals'',
     arguments = ArgsObject [(''query'', Prim (BStr ''beach house'')), (''limit'', Prim (BNum (Fin 3)))]\<rparr>"

definition call_porto :: tool_call where
  "call_porto = \<lparr>name = ''searchRentals'',
     arguments = ArgsObject [(''query'', Prim (BStr ''beach house in Porto'')),
       (''filters'', Obj [(''location'', BStr ''Porto'')]), (''limit'', Prim (BNum (Fin 8)))]\<rparr>"

definition call_falsy :: tool_call where
  "call_falsy = \<lparr>name = ''searchRentals'',
     arguments = ArgsObject [(''query'', Prim (BStr [])), (''filters'', Prim BNull),
       (''limit'', Prim (BNum (Fin 0)))]\<rparr>"

definition call_bare :: tool_call where
  "call_bare = \<lparr>name = ''searchRentals'', arguments = ArgsObject []\<rparr>"










section \<open>Session history\<close>

text \<open>
  Claim C6, as the code has it. For a stored session and a limit \<open>k\<close> with \<open>0 \<le> k\<close>,
  \<open>getConversationHistory\<close> returns the last \<open>k\<close> stored messages in their stored
  (chronological) order: the result is a suffix of the stored sequence, it is the whole
  sequence when fewer than \<open>k\<close> messages exist, and it never holds more than \<open>k\<close>
  messages.
\<close>

theorem getConversationHistory_suffix_window:
  assumes "docs sid = Some conv" and "messages conv = Some ms" and "0 \<le> k"
  shows "getConversationHistory (Available docs) sid (Some k)
           = HistoryOk (drop (length ms - nat k) ms) (Some conv)
         \<and> suffix (drop (length ms - nat k) ms) ms
         \<and> length (drop (length ms - nat k) ms) = min (nat k) (length ms)
         \<and> int (length (drop (length ms - nat k) ms)) \<le> k"
proof -
  have sl: "mongo_slice (- k) ms = drop (length ms - nat k) ms"
  proof (cases "k = 0")
    case True
    then show ?thesis by (simp add: mongo_slice_def)
  next
    case False
    with assms(3) have "\<not> 0 \<le> - k" by arith
    then show ?thesis by (simp add: mongo_slice_def)
  qed
  have r: "getConversationHistory (Available docs) sid (Some k)
             = HistoryOk (drop (length ms - nat k) ms) (Some conv)"
    using assms(1,2) sl by (simp add: getConversationHistory_def findOne_def)
  have s: "suffix (drop (length ms - nat k) ms) ms"
    by (rule suffix_drop)
  have l: "length (drop (length ms - nat k) ms) = min (nat k) (length ms)"
    by simp
  have b: "int (length (drop (length ms - nat k) ms)) \<le> k"
    using assms(3) by simp
  from r s l b show ?thesis by blast
qed

theorem getConversationHistory_suffix_window_witness:
  "getConversationHistory (Available sample_docs) ''s1'' (Some 2)
     = HistoryOk [msg ''2'' ''assistant'' ''hello'', msg ''3'' ''user'' ''beach house'']
         (Some sample_conv)
   \<and> suffix [msg ''2'' ''assistant'' ''hello'', msg ''3'' ''user'' ''beach house'']
        [msg ''1'' ''user'' ''hi'', msg ''2'' ''assistant'' ''hello'',
         msg ''3'' ''user'' ''beach house'']"
proof -
  have d: "sample_docs ''s1'' = Some sample_conv"
    by (simp add: sample_docs_def)
  have m: "messages sample_conv
             = Some [msg ''1'' ''user'' ''hi'', msg ''2'' ''assistant'' ''hello'',
                     msg ''3'' ''user'' ''beach house'']"
    by (simp add: sample_conv_def)
  have k: "(0::int) \<le> 2" by simp
  show ?thesis
    using getConversationHistory_suffix_window [where docs = sample_docs and sid = "''s1''", OF d m k] by simp
qed

text \<open>
  The claim as stated fails for a negative limit, which the history route passes on
  (\<open>parseInt(limit) || 20\<close>): \<open>-limit\<close> is then positive and \<open>$slice\<close> keeps the first
  messages. With limit \<open>-1\<close> the oldest message is returned, which is not a suffix of the
  three stored ones, and it is more than \<open>-1\<close> messages.
\<close>

theorem getConversationHistory_negative_limit:
  "getConversationHistory (Available sample_docs) ''s1'' (Some (- 1))
     = HistoryOk [msg ''1'' ''user'' ''hi''] (Some sample_conv)
   \<and> \<not> suffix [msg ''1'' ''user'' ''hi'']
         [msg ''1'' ''user'' ''hi'', msg ''2'' ''assistant'' ''hello'',
          msg ''3'' ''user'' ''beach house'']"
  by (simp add: getConversationHistory_def findOne_def sample_docs_def sample_conv_def
      mongo_slice_def msg_def suffix_Cons)

text \<open>
  Claim C9. When the collection answers and holds no session for the identifier,
  \<open>getConversationHistory\<close> returns a success carrying the empty message list and
  null metadata, whatever the limit; it is not the failure value.
\<close>

theorem getConversationHistory_unknown_session:
  assumes "docs sid = None"
  shows "getConversationHistory (Available docs) sid limit_opt = HistoryOk [] None"
  using assms by (simp add: getConversationHistory_def findOne_def)

theorem getConversationHistory_unknown_session_witness:
  "getConversationHistory (Available sample_docs) ''nobody'' (Some 5) = HistoryOk [] None"
proof -
  have d: "sample_docs ''nobody'' = None"
    by (simp add: sample_docs_def)
  show ?thesis
    by (rule getConversationHistory_unknown_session [where docs = sample_docs and sid = "''nobody''", OF d])
qed

section \<open>Fusion of semantic and lexical results\<close>

lemma push_lexical_eq:
  "push_lexical V acc ts = acc @ map (\<lambda>r. r\<lparr>score := Some (1/2)\<rparr>) (filter (\<lambda>r. idstr r \<notin> V) ts)"
  by (induction ts arbitrary: acc) auto

lemma idstr_rescore: "idstr (r\<lparr>score := s\<rparr>) = idstr r"
  by (simp add: idstr_def)

lemma combinedResults_eq:
  "combinedResults vs ts
     = vs @ map (\<lambda>r. r\<lparr>score := Some (1/2)\<rparr>) (filter (\<lambda>r. idstr r \<notin> vectorIds vs) ts)"
  by (simp add: combinedResults_def push_lexical_eq)

lemma distinct_map_insort_key:
  "distinct (map f (insort_key k x xs)) = (f x \<notin> f ` set xs \<and> distinct (map f xs))"
  by (induction xs) (auto simp: set_insort_key)

lemma distinct_map_sort_key:
  "distinct (map f (sort_key k xs)) = distinct (map f xs)"
  by (induction xs) (auto simp: distinct_map_insort_key)

lemma distinct_map_take: "distinct (map f xs) \<Longrightarrow> distinct (map f (take n xs))"
  by (simp add: take_map [symmetric] del: take_map)

lemma set_fuse: "set (fuse vs ts limit) \<subseteq> set (combinedResults vs ts)"
  by (auto simp: fuse_def slice0_def sort_by_score_def dest: in_set_takeD)

lemma map_idstr_rescored:
  "map idstr (map (\<lambda>r. r\<lparr>score := Some (1/2)\<rparr>) rs) = map idstr rs"
  by (simp add: comp_def idstr_rescore)

lemma distinct_combined:
  assumes "distinct (map idstr vs)" and "distinct (map idstr ts)"
  shows "distinct (map idstr (combinedResults vs ts))"
proof -
  let ?L = "filter (\<lambda>r. idstr r \<notin> vectorIds vs) ts"
  have d: "distinct (map idstr ?L)"
    using assms(2) by (rule distinct_map_filter)
  have j: "set (map idstr vs) \<inter> set (map idstr ?L) = {}"
    by (auto simp: vectorIds_def) (metis imageI)
  have "map idstr (combinedResults vs ts) = map idstr vs @ map idstr ?L"
    by (simp only: combinedResults_eq map_append map_idstr_rescored)
  with assms(1) d j show ?thesis
    by (simp only: distinct_append)
qed

lemma ok_all_lexical:
  "\<forall>x \<in> set L. idstr x \<notin> V \<Longrightarrow> lexical_before_semantic_ok V L"
  by (induction L) auto

lemma ok_insort:
  "idstr x \<in> V \<Longrightarrow> lexical_before_semantic_ok V L
     \<Longrightarrow> lexical_before_semantic_ok V (insort_key (\<lambda>r. - score_or_zero r) x L)"
  by (induction L) (auto simp: set_insort_key)

lemma ok_foldr:
  "\<forall>x \<in> set A. idstr x \<in> V \<Longrightarrow> lexical_before_semantic_ok V L
     \<Longrightarrow> lexical_before_semantic_ok V (foldr (insort_key (\<lambda>r. - score_or_zero r)) A L)"
  by (induction A) (auto simp: ok_insort)

lemma ok_take:
  "lexical_before_semantic_ok V L \<Longrightarrow> lexical_before_semantic_ok V (take n L)"
  by (induction L arbitrary: n) (auto simp: take_Cons split: nat.splits dest: in_set_takeD)

lemma ok_nth:
  "lexical_before_semantic_ok V L \<Longrightarrow> i < j \<Longrightarrow> j < length L
     \<Longrightarrow> idstr (L ! i) \<notin> V \<Longrightarrow> idstr (L ! j) \<in> V
     \<Longrightarrow> score_or_zero (L ! j) < score_or_zero (L ! i)"
proof (induction L arbitrary: i j)
  case Nil
  then show ?case by simp
next
  case (Cons x xs)
  from Cons.prems(2) obtain j' where j: "j = Suc j'" by (cases j) auto
  show ?case
  proof (cases i)
    case 0
    with Cons.prems j show ?thesis by auto
  next
    case (Suc i')
    with Cons.prems j Cons.IH [of i' j'] show ?thesis by auto
  qed
qed

lemma ok_fuse: "lexical_before_semantic_ok (vectorIds vs) (fuse vs ts limit)"
proof -
  let ?B = "map (\<lambda>r. r\<lparr>score := Some (1/2)\<rparr>) (filter (\<lambda>r. idstr r \<notin> vectorIds vs) ts)"
  have b: "lexical_before_semantic_ok (vectorIds vs) (sort_key (\<lambda>r. - score_or_zero r) ?B)"
    by (rule ok_all_lexical) (auto simp: idstr_rescore)
  have a: "\<forall>x \<in> set vs. idstr x \<in> vectorIds vs"
    by (simp add: vectorIds_def)
  have "sort_by_score (combinedResults vs ts)
          = foldr (insort_key (\<lambda>r. - score_or_zero r)) vs (sort_key (\<lambda>r. - score_or_zero r) ?B)"
    by (simp add: sort_by_score_def combinedResults_eq sort_key_def)
  then have "lexical_before_semantic_ok (vectorIds vs) (sort_by_score (combinedResults vs ts))"
    using ok_foldr [OF a b] by simp
  then show ?thesis
    by (simp add: fuse_def slice0_def ok_take)
qed

lemma lexical_only_score:
  "x \<in> set (fuse vs ts limit) \<Longrightarrow> idstr x \<notin> vectorIds vs \<Longrightarrow> score x = Some (1/2)"
proof -
  assume "x \<in> set (fuse vs ts limit)" and n: "idstr x \<notin> vectorIds vs"
  then have "x \<in> set (combinedResults vs ts)" using set_fuse by blast
  with n show ?thesis
    by (auto simp: combinedResults_eq vectorIds_def)
qed

text \<open>
  Claim C3, as the code has it. When neither result list repeats an identity itself, the
  fused list holds no two results with the same identity. And for every pair of result
  lists, every fused result that carries the identity of a semantic result is that
  semantic record itself: the lexical duplicate is dropped, not merged into it.
\<close>

theorem fuse_unique_identity:
  "(distinct (map idstr vs) \<and> distinct (map idstr ts)
      \<longrightarrow> distinct (map idstr (fuse vs ts limit)))
   \<and> (\<forall>x \<in> set (fuse vs ts limit). idstr x \<in> vectorIds vs \<longrightarrow> x \<in> set vs)"
proof -
  have d: "distinct (map idstr (fuse vs ts limit))"
    if "distinct (map idstr vs)" and "distinct (map idstr ts)"
    unfolding fuse_def slice0_def sort_by_score_def
    by (intro distinct_map_take) (simp add: distinct_map_sort_key distinct_combined that)
  have k: "\<forall>x \<in> set (fuse vs ts limit). idstr x \<in> vectorIds vs \<longrightarrow> x \<in> set vs"
  proof (intro ballI impI)
    fix x assume "x \<in> set (fuse vs ts limit)" and v: "idstr x \<in> vectorIds vs"
    then have "x \<in> set (combinedResults vs ts)" using set_fuse by blast
    with v show "x \<in> set vs"
      by (auto simp: combinedResults_eq idstr_rescore)
  qed
  from d k show ?thesis by blast
qed

theorem fuse_unique_identity_witness:
  "distinct (map idstr [hit_c, hit_a]) \<and> distinct (map idstr [hit_b, hit_a_lexical])
   \<and> idstr hit_a_lexical \<in> vectorIds [hit_c, hit_a]
   \<and> distinct (map idstr (fuse [hit_c, hit_a] [hit_b, hit_a_lexical] 10))
   \<and> fuse [hit_c, hit_a] [hit_b, hit_a_lexical] 10 = [hit_c, hit_b\<lparr>score := Some (1/2)\<rparr>, hit_a]"
proof -
  have v: "distinct (map idstr [hit_c, hit_a])"
    by (simp add: idstr_def hit_c_def hit_a_def)
  have t: "distinct (map idstr [hit_b, hit_a_lexical])"
    by (simp add: idstr_def hit_b_def hit_a_lexical_def)
  have l: "idstr hit_a_lexical \<in> vectorIds [hit_c, hit_a]"
    by (simp add: vectorIds_def idstr_def hit_a_def hit_a_lexical_def)
  have f: "fuse [hit_c, hit_a] [hit_b, hit_a_lexical] 10
             = [hit_c, hit_b\<lparr>score := Some (1/2)\<rparr>, hit_a]"
    by (simp add: fuse_def slice0_def sort_by_score_def combinedResults_def vectorIds_def
        idstr_def hit_a_def hit_b_def hit_c_def hit_a_lexical_def score_or_zero_def)
  from v t l f fuse_unique_identity [of "[hit_c, hit_a]" "[hit_b, hit_a_lexical]" 10]
  show ?thesis by blast
qed

text \<open>
  The claim as stated fails: the identity is \<open>_id.toString()\<close>, and the listing with the
  number 5 as \<open>_id\<close> and the listing with the string \<open>5\<close> as \<open>_id\<close> are two records of
  one lexical result list with one identity. Both are pushed, since only the semantic
  identities are looked up, and the fused list holds the identity twice.
\<close>

theorem fuse_repeats_identity_within_a_list:
  "distinct (map hit_id [hit_n5, hit_s5])
   \<and> map idstr (fuse [] [hit_n5, hit_s5] 10) = [''5'', ''5'']"
  by (simp add: fuse_def slice0_def sort_by_score_def combinedResults_def vectorIds_def
      idstr_def hit_n5_def hit_s5_def score_or_zero_def int_toString_def nat_text_def
      round_double_def nat_digits.simps)

lemma sorted_fuse: "sorted (map (\<lambda>r. - score_or_zero r) (fuse vs ts limit))"
  by (simp add: fuse_def slice0_def sort_by_score_def sorted_wrt_take flip: take_map)

lemma fuse_descending:
  "i \<le> j \<Longrightarrow> j < length (fuse vs ts limit)
     \<Longrightarrow> score_or_zero (fuse vs ts limit ! j) \<le> score_or_zero (fuse vs ts limit ! i)"
  using sorted_fuse [of vs ts limit]
  by (auto simp: sorted_iff_nth_mono dest!: spec [of _ i] spec [of _ j])

text \<open>
  Claim C2, as the code has it. Every lexical-only hit of the fused list carries the fixed
  fallback score 0.5, and the list is ordered by descending score with semantic hits first
  among equals: a semantic hit whose score is at least 0.5 stands before every lexical-only
  hit, and a semantic hit whose score is below 0.5 (a missing score counts as 0) stands
  after every lexical-only hit.
\<close>

theorem fuse_fallback_score_and_rank:
  "(\<forall>x \<in> set (fuse vs ts limit). idstr x \<notin> vectorIds vs \<longrightarrow> score x = Some (1/2))
   \<and> (\<forall>i j. i < length (fuse vs ts limit) \<and> j < length (fuse vs ts limit)
          \<and> idstr (fuse vs ts limit ! i) \<in> vectorIds vs
          \<and> idstr (fuse vs ts limit ! j) \<notin> vectorIds vs
        \<longrightarrow> (1/2 \<le> score_or_zero (fuse vs ts limit ! i) \<longrightarrow> i < j)
            \<and> (score_or_zero (fuse vs ts limit ! i) < 1/2 \<longrightarrow> j < i))"
proof -
  let ?out = "fuse vs ts limit"
  have s: "\<forall>x \<in> set ?out. idstr x \<notin> vectorIds vs \<longrightarrow> score x = Some (1/2)"
    using lexical_only_score by blast
  have h: "score_or_zero (?out ! j) = 1/2"
    if "j < length ?out" "idstr (?out ! j) \<notin> vectorIds vs" for j
  proof -
    have "score (?out ! j) = Some (1/2)" using s that by simp
    then show ?thesis by (simp add: score_or_zero_def)
  qed
  have above: "i < j"
    if a: "i < length ?out" "j < length ?out" "idstr (?out ! i) \<in> vectorIds vs"
      "idstr (?out ! j) \<notin> vectorIds vs" "1/2 \<le> score_or_zero (?out ! i)" for i j
  proof (rule ccontr)
    assume "\<not> i < j"
    moreover from a(3,4) have "i \<noteq> j" by auto
    ultimately have ji: "j < i" by simp
    have "score_or_zero (?out ! i) < score_or_zero (?out ! j)"
      using ok_nth [OF ok_fuse ji a(1) a(4) a(3)] .
    with h [OF a(2) a(4)] a(5) show False by simp
  qed
  have below: "j < i"
    if a: "i < length ?out" "j < length ?out" "idstr (?out ! i) \<in> vectorIds vs"
      "idstr (?out ! j) \<notin> vectorIds vs" "score_or_zero (?out ! i) < 1/2" for i j
  proof (rule ccontr)
    assume "\<not> j < i"
    then have "i \<le> j" by simp
    from fuse_descending [OF this a(2)] h [OF a(2) a(4)] a(5) show False by simp
  qed
  from s above below show ?thesis by blast
qed

theorem fuse_fallback_score_and_rank_witness:
  "fuse [hit_c, hit_a] [hit_b, hit_a_lexical] 10 = [hit_c, hit_b\<lparr>score := Some (1/2)\<rparr>, hit_a]
   \<and> idstr hit_c \<in> vectorIds [hit_c, hit_a] \<and> 1/2 \<le> score_or_zero hit_c
   \<and> idstr hit_a \<in> vectorIds [hit_c, hit_a] \<and> score_or_zero hit_a < 1/2
   \<and> idstr (hit_b\<lparr>score := Some (1/2)\<rparr>) \<notin> vectorIds [hit_c, hit_a]
   \<and> score (fuse [hit_c, hit_a] [hit_b, hit_a_lexical] 10 ! 1) = Some (1/2)
   \<and> (0::nat) < 1 \<and> (1::nat) < 2"
proof -
  have f: "fuse [hit_c, hit_a] [hit_b, hit_a_lexical] 10
             = [hit_c, hit_b\<lparr>score := Some (1/2)\<rparr>, hit_a]"
    by (simp add: fuse_def slice0_def sort_by_score_def combinedResults_def vectorIds_def
        idstr_def hit_a_def hit_b_def hit_c_def hit_a_lexical_def score_or_zero_def)
  have m: "idstr hit_c \<in> vectorIds [hit_c, hit_a]" "idstr hit_a \<in> vectorIds [hit_c, hit_a]"
    by (simp_all add: vectorIds_def)
  have n: "idstr (hit_b\<lparr>score := Some (1/2)\<rparr>) \<notin> vectorIds [hit_c, hit_a]"
    by (simp add: vectorIds_def idstr_def hit_a_def hit_b_def hit_c_def)
  have g: "1/2 \<le> score_or_zero hit_c" "score_or_zero hit_a < 1/2"
    by (simp_all add: score_or_zero_def hit_c_def hit_a_def)
  have "score (fuse [hit_c, hit_a] [hit_b, hit_a_lexical] 10 ! 1) = Some (1/2)"
    using fuse_fallback_score_and_rank [of "[hit_c, hit_a]" "[hit_b, hit_a_lexical]" 10] f n
    by simp
  then show ?thesis using f m n g by simp
qed

text \<open>
  The claim as stated fails: a semantic hit with score 0.4 and a lexical-only hit. The
  lexical-only hit gets 0.5 and is ranked first, above the semantic hit.
\<close>

theorem fuse_lexical_only_outranks_low_semantic:
  "fuse [hit_a] [hit_b] 10 = [hit_b\<lparr>score := Some (1/2)\<rparr>, hit_a]
   \<and> idstr (hit_b\<lparr>score := Some (1/2)\<rparr>) \<notin> vectorIds [hit_a]
   \<and> idstr hit_a \<in> vectorIds [hit_a]
   \<and> score hit_a = Some (2/5)"
  by (simp add: fuse_def slice0_def sort_by_score_def combinedResults_def vectorIds_def idstr_def
      hit_a_def hit_b_def score_or_zero_def)

section \<open>Failure of the semantic search\<close>

text \<open>
  Claim C4. When the semantic search fails (the embedding call or the vector index call
  throws), \<open>hybridSearch\<close> fails with an error, whether the lexical search succeeded or
  not; it never returns a result list. With a successful lexical search the error is the
  one of the semantic search.
\<close>

theorem hybridSearch_fails_with_semantic_search:
  assumes "vectorSearch embedding aggregate = Inl err"
  shows "(\<exists>err'. hybridSearch second_first embedding aggregate traditional limit = Inl err')
         \<and> (\<forall>out. hybridSearch second_first embedding aggregate traditional limit \<noteq> Inr out)
         \<and> (\<forall>ts. traditional = Inr ts
               \<longrightarrow> hybridSearch second_first embedding aggregate traditional limit = Inl err)"
  using assms by (cases traditional) (simp_all add: hybridSearch_def promise_all2_def)

theorem hybridSearch_fails_with_semantic_search_witness:
  "vectorSearch (Inl ''embedding failed'') sample_aggregate = Inl ''embedding failed''
   \<and> hybridSearch False (Inl ''embedding failed'') sample_aggregate (Inr [hit_b]) 10
       = Inl ''embedding failed''"
proof -
  have v: "vectorSearch (Inl ''embedding failed'') sample_aggregate = Inl ''embedding failed''"
    by (simp add: vectorSearch_def)
  from v hybridSearch_fails_with_semantic_search [OF v, of False "Inr [hit_b]" 10]
  show ?thesis by blast
qed

section \<open>Search metadata of a turn\<close>

lemma search_fields:
  assumes "filter (\<lambda>call. name call = ''searchRentals'') calls = earlier @ [lastSearch]"
  shows "search_query (extractSearchMetadata results (Some calls) userMessage)
           = Some (js_or (argument (arguments lastSearch) ''query'') (Prim (BStr userMessage)))"
    and "search_filters (extractSearchMetadata results (Some calls) userMessage)
           = Some (js_or (argument (arguments lastSearch) ''filters'') (Obj []))"
    and "search_limit (extractSearchMetadata results (Some calls) userMessage)
           = Some (js_or (argument (arguments lastSearch) ''limit'') (Prim (BNum (Fin 5))))"
proof -
  from assms have ne: "calls \<noteq> []" by auto
  have l: "(earlier @ [lastSearch]) ! (length (earlier @ [lastSearch]) - 1) = lastSearch"
    by simp
  show "search_query (extractSearchMetadata results (Some calls) userMessage)
           = Some (js_or (argument (arguments lastSearch) ''query'') (Prim (BStr userMessage)))"
    using ne by (simp add: extractSearchMetadata_def assms Let_def)
  show "search_filters (extractSearchMetadata results (Some calls) userMessage)
           = Some (js_or (argument (arguments lastSearch) ''filters'') (Obj []))"
    using ne by (simp add: extractSearchMetadata_def assms Let_def)
  show "search_limit (extractSearchMetadata results (Some calls) userMessage)
           = Some (js_or (argument (arguments lastSearch) ''limit'') (Prim (BNum (Fin 5))))"
    using ne by (simp add: extractSearchMetadata_def assms Let_def)
qed

text \<open>
  Claim C7, as the code has it. When the turn recorded retrieval-tool calls
  (\<open>searchRentals\<close>), the search metadata is read from the last of them, whatever the
  earlier calls asked for: \<open>search_query\<close>, \<open>search_filters\<close> and \<open>search_limit\<close> are
  that call's \<open>query\<close>, \<open>filters\<close> and \<open>limit\<close> read as \<open>value || default\<close>, so each
  argument of the last call that is truthy is the extracted one, and a missing or falsy one
  gives the default (the user message, the empty filter object, 5).
\<close>

theorem extractSearchMetadata_last_wins:
  assumes "filter (\<lambda>call. name call = ''searchRentals'') calls = earlier @ [lastSearch]"
  shows "search_query (extractSearchMetadata results (Some calls) userMessage)
           = Some (js_or (argument (arguments lastSearch) ''query'') (Prim (BStr userMessage)))
         \<and> search_filters (extractSearchMetadata results (Some calls) userMessage)
           = Some (js_or (argument (arguments lastSearch) ''filters'') (Obj []))
         \<and> search_limit (extractSearchMetadata results (Some calls) userMessage)
           = Some (js_or (argument (arguments lastSearch) ''limit'') (Prim (BNum (Fin 5))))
         \<and> (truthy (argument (arguments lastSearch) ''query'') \<longrightarrow>
              search_query (extractSearchMetadata results (Some calls) userMessage)
                = Some (argument (arguments lastSearch) ''query''))
         \<and> (truthy (argument (arguments lastSearch) ''filters'') \<longrightarrow>
              search_filters (extractSearchMetadata results (Some calls) userMessage)
                = Some (argument (arguments lastSearch) ''filters''))
         \<and> (truthy (argument (arguments lastSearch) ''limit'') \<longrightarrow>
              search_limit (extractSearchMetadata results (Some calls) userMessage)
                = Some (argument (arguments lastSearch) ''limit''))"
  using search_fields [OF assms] by (simp add: js_or_def)

theorem extractSearchMetadata_last_wins_witness:
  "filter (\<lambda>call. name call = ''searchRentals'') [call_beach, call_porto] = [call_beach] @ [call_porto]
   \<and> truthy (argument (arguments call_porto) ''query'')
   \<and> search_query (extractSearchMetadata None (Some [call_beach, call_porto]) ''find me something'')
       = Some (Prim (BStr ''beach house in Porto''))
   \<and> search_filters (extractSearchMetadata None (Some [call_beach, call_porto]) ''find me something'')
       = Some (Obj [(''location'', BStr ''Porto'')])
   \<and> search_limit (extractSearchMetadata None (Some [call_beach, call_porto]) ''find me something'')
       = Some (Prim (BNum (Fin 8)))"
proof -
  have f: "filter (\<lambda>call. name call = ''searchRentals'') [call_beach, call_porto]
             = [call_beach] @ [call_porto]"
    by (simp add: call_beach_def call_porto_def)
  have q: "argument (arguments call_porto) ''query'' = Prim (BStr ''beach house in Porto'')"
    and fl: "argument (arguments call_porto) ''filters'' = Obj [(''location'', BStr ''Porto'')]"
    and l: "argument (arguments call_porto) ''limit'' = Prim (BNum (Fin 8))"
    by (simp_all add: call_porto_def argument_def get_prop_def)
  show ?thesis
    using f extractSearchMetadata_last_wins [OF f, of None "''find me something''"]
    by (simp add: q fl l js_or_def)
qed

text \<open>
  The claim as stated fails when the last call's arguments are falsy: with an empty
  \<open>query\<close>, \<open>filters: null\<close> and \<open>limit: 0\<close> in the last call, the extracted values are
  the user message, the empty filter object and 5, not that call's arguments.
\<close>

theorem extractSearchMetadata_falsy_last_call:
  "argument (arguments call_falsy) ''query'' = Prim (BStr [])
   \<and> argument (arguments call_falsy) ''filters'' = Prim BNull
   \<and> argument (arguments call_falsy) ''limit'' = Prim (BNum (Fin 0))
   \<and> search_query (extractSearchMetadata None (Some [call_beach, call_falsy]) ''find me something'')
       = Some (Prim (BStr ''find me something''))
   \<and> search_filters (extractSearchMetadata None (Some [call_beach, call_falsy]) ''find me something'')
       = Some (Obj [])
   \<and> search_limit (extractSearchMetadata None (Some [call_beach, call_falsy]) ''find me something'')
       = Some (Prim (BNum (Fin 5)))"
  by (simp add: extractSearchMetadata_def call_beach_def call_falsy_def argument_def get_prop_def
      js_or_def empty_metadata_def Let_def)

text \<open>
  Claim C10. When the turn recorded at least one retrieval-tool call and the last one has
  no (or an empty) \<open>query\<close>, the extracted \<open>search_query\<close> is the user message handed to
  the agent (the context-enriched text), not absent; a missing \<open>filters\<close> gives the empty
  filter object and a missing \<open>limit\<close> gives 5.
\<close>

theorem extractSearchMetadata_defaults:
  assumes "filter (\<lambda>call. name call = ''searchRentals'') calls = earlier @ [lastSearch]"
  shows "(\<not> truthy (argument (arguments lastSearch) ''query'') \<longrightarrow>
            search_query (extractSearchMetadata results (Some calls) userMessage)
              = Some (Prim (BStr userMessage)))
         \<and> (\<not> truthy (argument (arguments lastSearch) ''filters'') \<longrightarrow>
              search_filters (extractSearchMetadata results (Some calls) userMessage)
                = Some (Obj []))
         \<and> (\<not> truthy (argument (arguments lastSearch) ''limit'') \<longrightarrow>
              search_limit (extractSearchMetadata results (Some calls) userMessage)
                = Some (Prim (BNum (Fin 5))))"
  using search_fields [OF assms] by (simp add: js_or_def)

theorem extractSearchMetadata_defaults_witness:
  "filter (\<lambda>call. name call = ''searchRentals'') [call_beach, call_bare] = [call_beach] @ [call_bare]
   \<and> argument (arguments call_bare) ''query'' = Prim BUndef
   \<and> argument (arguments call_bare) ''filters'' = Prim BUndef
   \<and> argument (arguments call_bare) ''limit'' = Prim BUndef
   \<and> search_query (extractSearchMetadata None (Some [call_beach, call_bare]) ''find me something'')
       = Some (Prim (BStr ''find me something''))
   \<and> search_filters (extractSearchMetadata None (Some [call_beach, call_bare]) ''find me something'')
       = Some (Obj [])
   \<and> search_limit (extractSearchMetadata None (Some [call_beach, call_bare]) ''find me something'')
       = Some (Prim (BNum (Fin 5)))"
proof -
  have f: "filter (\<lambda>call. name call = ''searchRentals'') [call_beach, call_bare]
             = [call_beach] @ [call_bare]"
    by (simp add: call_beach_def call_bare_def)
  have u: "argument (arguments call_bare) ''query'' = Prim BUndef"
    "argument (arguments call_bare) ''filters'' = Prim BUndef"
    "argument (arguments call_bare) ''limit'' = Prim BUndef"
    by (simp_all add: call_bare_def argument_def get_prop_def)
  show ?thesis
    using f extractSearchMetadata_defaults [OF f, of None "''find me something''"]
    by (simp add: u js_or_def)
qed

section \<open>A failed chat turn\<close>

lemma addMessage_stored:
  "(\<exists>docs'. fst (addMessage (Available docs) i t sid r c m u) = Available docs' \<and> docs' sid \<noteq> None)
   \<and> stored_messages (fst (addMessage (Available docs) i t sid r c m u)) sid
       = stored_messages (Available docs) sid
         @ [\<lparr>msg_id = i, role = r, content = c, timestamp = t, msg_metadata = m,
             msg_userId = (if truthy_id u then u else None), msg_isAuthenticated = (u \<noteq> None)\<rparr>]"
  by (cases "docs sid") (simp_all add: addMessage_def stored_messages_def Let_def)






text \<open>
  The \<open>catch\<close> block: an exception thrown inside the controller (here while the message
  is enriched) also ends in a failure object, and in a stored error message.
\<close>

lemma handleChatMessage_catch_block:
  assumes "enhanced env = Inl thrown" and "session_of env req \<noteq> []"
  shows "snd (handleChatMessage env coll state req)
           = ChatFailure trouble_text (if development env then Some thrown else None)
               (session_of env req)
         \<and> (\<forall>docs. coll = Available docs \<longrightarrow>
               stored_messages (fst (fst (handleChatMessage env coll state req))) (session_of env req)
                 = stored_messages coll (session_of env req)
                   @ [user_message env req, error_message env req trouble_text thrown])"
proof -
  let ?sid = "session_of env req"
  let ?coll1 = "fst (addMessage coll (user_message_id env) (clock env) ?sid ''user''
                       (Some (req_message req)) (UserTurn (req_context req)) (userId req))"
  have f: "handleChatMessage env coll state req
             = ((fst (addMessage ?coll1 (assistant_message_id env) (clock env) ?sid ''assistant''
                        (Some trouble_text) (ErrorTurn (Some thrown)) (userId req)), state),
                ChatFailure trouble_text (if development env then Some thrown else None) ?sid)"
    using assms by (simp add: handleChatMessage_def Let_def)
  have a: "stored_messages (fst (fst (handleChatMessage env coll state req))) ?sid
             = stored_messages coll ?sid @ [user_message env req, error_message env req trouble_text thrown]"
    if d: "coll = Available docs" for docs
  proof -
    from addMessage_stored [of docs "user_message_id env" "clock env" ?sid "''user''"
        "Some (req_message req)" "UserTurn (req_context req)" "userId req"] d
    obtain docs1 where d1: "?coll1 = Available docs1"
      and s1: "stored_messages ?coll1 ?sid = stored_messages coll ?sid @ [user_message env req]"
      by (auto simp: user_message_def)
    from addMessage_stored [of docs1 "assistant_message_id env" "clock env" ?sid "''assistant''"
        "Some trouble_text" "ErrorTurn (Some thrown)" "userId req"]
    show ?thesis
      unfolding f by (simp add: d1 [symmetric] s1 error_message_def)
  qed
  from f a show ?thesis by simp
qed

section \<open>Compiled filters\<close>

lemma map_of_put: "map_of (put k v q) k' = (if k' = k then Some v else map_of q k')"
  by (induction q) auto

lemma map_of_put_if:
  "map_of (put_if b k v q) k' = (if b \<and> k' = k then Some v else map_of q k')"
  by (simp add: put_if_def map_of_put)

lemma matches_entry:
  "map_of q k = Some e \<Longrightarrow> matches ext q doc \<Longrightarrow> entry_holds ext doc (k, e)"
  by (auto simp: matches_def list_all_iff dest: map_of_SomeD)

lemma classify_ids_lists:
  "classify_ids isValid newObjectId os ns ids = Inr (os', ns')
     \<Longrightarrow> os' = os @ objectIds_of isValid newObjectId ids \<and> ns' = ns @ numericIds_of isValid ids"
proof (induction ids arbitrary: os ns)
  case Nil
  then show ?case by (simp add: objectIds_of_def numericIds_of_def)
next
  case (Cons b rest)
  from Cons.prems obtain t where t: "method_toString b = Inr t"
    by (cases "method_toString b") auto
  then have tt: "trimmed_text b = js_trim t"
    by (auto simp: method_toString_def trimmed_text_def split: if_splits)
  show ?case
  proof (cases "isValid (js_trim t)")
    case True
    with Cons.prems t have "classify_ids isValid newObjectId (os @ [BOid (newObjectId (js_trim t))]) ns rest = Inr (os', ns')"
      by (simp add: Let_def)
    from Cons.IH [OF this] True tt show ?thesis
      by (simp add: objectIds_of_def numericIds_of_def)
  next
    case False
    with Cons.prems t have "classify_ids isValid newObjectId os (ns @ [legacy_id (js_trim t)]) rest = Inr (os', ns')"
      by (simp add: Let_def legacy_id_def)
    from Cons.IH [OF this] False tt show ?thesis
      by (simp add: objectIds_of_def numericIds_of_def)
  qed
qed

lemma matches_ids_query:
  assumes "objectIds @ numericIds \<noteq> []"
  shows "matches ext (ids_query objectIds numericIds) doc
           \<longleftrightarrow> (\<exists>b. map_of doc ''_id'' = Some b \<and> (b \<in> set objectIds \<or> b \<in> set numericIds))"
  using assms
  by (cases objectIds; cases numericIds)
     (auto simp: ids_query_def matches_def entry_holds_def holds_def split: option.splits)

lemma buildSearchQuery_ids_only:
  assumes "truthy (get_prop params ''ids'')"
    and "get_prop params' ''ids'' = get_prop params ''ids''"
  shows "buildSearchQuery isValid newObjectId params' = buildSearchQuery isValid newObjectId params"
  using assms by (simp add: buildSearchQuery_def)

lemma location_or:
  assumes "truthy (get_prop params ''location'')" and "\<not> truthy (get_prop params ''ids'')"
  shows "\<exists>q. buildSearchQuery isValid newObjectId params = Inr q
           \<and> map_of q ''$or''
               = Some (OrOf [(''address.neighbourhood'', OpRegex (get_prop params ''location'') ''i''),
                             (''address.market'', OpRegex (get_prop params ''location'') ''i''),
                             (''address.country'', OpRegex (get_prop params ''location'') ''i'')])"
  using assms by (simp add: buildSearchQuery_def Let_def map_of_put_if)

lemma location_market:
  assumes "truthy (get_prop filters ''location'')"
  shows "map_of (buildVectorSearchFilter (Some filters)) ''address.market''
           = Some (Cond (OpEq (get_prop filters ''location'')))"
  using assms by (simp add: buildVectorSearchFilter_def Let_def map_of_put_if)

lemma round_double_small: "n < 2 ^ 53 \<Longrightarrow> round_double n = Some n"
  by (simp add: round_double_def)

lemma some_id_listed:
  "ids \<noteq> [] \<Longrightarrow> objectIds_of isValid newObjectId ids @ numericIds_of isValid ids \<noteq> []"
  by (cases ids) (auto simp: objectIds_of_def numericIds_of_def)

lemma decoded_ids:
  "(b \<in> set (objectIds_of isValid newObjectId ids) \<or> b \<in> set (numericIds_of isValid ids))
     \<longleftrightarrow> (\<exists>ident \<in> set ids. b = decode_id isValid newObjectId ident)"
  by (auto simp: objectIds_of_def numericIds_of_def decode_id_def Let_def)

lemma buildSearchQuery_ids_result:
  assumes "truthy (get_prop params ''ids'')"
    and "buildSearchQuery isValid newObjectId params = Inr q"
  shows "\<exists>ids. ids_of (get_prop params ''ids'') = Inr ids
           \<and> q = ids_query (objectIds_of isValid newObjectId ids) (numericIds_of isValid ids)"
proof -
  from assms obtain ids where i: "ids_of (get_prop params ''ids'') = Inr ids"
    by (cases "ids_of (get_prop params ''ids'')") (auto simp: buildSearchQuery_def)
  with assms obtain os ns where c: "classify_ids isValid newObjectId [] [] ids = Inr (os, ns)"
    and q: "q = ids_query os ns"
    by (cases "classify_ids isValid newObjectId [] [] ids") (auto simp: buildSearchQuery_def)
  from classify_ids_lists [OF c] q i show ?thesis by simp
qed

text \<open>
  Claim C1, as the code has it. When \<open>params.ids\<close> is truthy (a non-empty string or an
  array), the compiled query depends on \<open>ids\<close> alone: two parameter maps with the same
  \<open>ids\<close> compile to the same result, whatever else they hold. The query built is the
  identity-set query of the decoded identifiers, and when at least one identifier is
  listed it selects exactly the records whose \<open>_id\<close> is what a listed identifier decodes
  to: the \<open>ObjectId\<close> built from its trimmed text when the driver accepts that text, and
  otherwise the number \<open>parseInt\<close> reads from it when the text is numeric, or the text
  itself. Both encodings in one list are joined by \<open>$or\<close>.
\<close>

theorem buildSearchQuery_ids_override:
  assumes "truthy (get_prop params ''ids'')"
    and "get_prop params' ''ids'' = get_prop params ''ids''"
  shows "buildSearchQuery isValid newObjectId params' = buildSearchQuery isValid newObjectId params
         \<and> (\<forall>q. buildSearchQuery isValid newObjectId params = Inr q \<longrightarrow>
               (\<exists>ids. ids_of (get_prop params ''ids'') = Inr ids
                  \<and> q = ids_query (objectIds_of isValid newObjectId ids) (numericIds_of isValid ids)
                  \<and> (ids \<noteq> [] \<longrightarrow>
                       (\<forall>ext doc. matches ext q doc \<longleftrightarrow>
                          (\<exists>ident \<in> set ids.
                             map_of doc ''_id'' = Some (decode_id isValid newObjectId ident))))))"
proof -
  have e: "buildSearchQuery isValid newObjectId params'
             = buildSearchQuery isValid newObjectId params"
    using assms by (rule buildSearchQuery_ids_only)
  have m: "\<exists>ids. ids_of (get_prop params ''ids'') = Inr ids
              \<and> q = ids_query (objectIds_of isValid newObjectId ids) (numericIds_of isValid ids)
              \<and> (ids \<noteq> [] \<longrightarrow>
                   (\<forall>ext doc. matches ext q doc \<longleftrightarrow>
                      (\<exists>ident \<in> set ids.
                         map_of doc ''_id'' = Some (decode_id isValid newObjectId ident))))"
    if r: "buildSearchQuery isValid newObjectId params = Inr q" for q
  proof -
    from buildSearchQuery_ids_result [OF assms(1) r] obtain ids where
      i: "ids_of (get_prop params ''ids'') = Inr ids"
      and q: "q = ids_query (objectIds_of isValid newObjectId ids) (numericIds_of isValid ids)"
      by blast
    have "matches ext q doc \<longleftrightarrow>
            (\<exists>ident \<in> set ids. map_of doc ''_id'' = Some (decode_id isValid newObjectId ident))"
      if n: "ids \<noteq> []" for ext doc
    proof -
      have "matches ext q doc \<longleftrightarrow>
              (\<exists>b. map_of doc ''_id'' = Some b
                 \<and> (b \<in> set (objectIds_of isValid newObjectId ids)
                    \<or> b \<in> set (numericIds_of isValid ids)))"
        unfolding q using some_id_listed [OF n] by (rule matches_ids_query)
      then show ?thesis by (auto simp: decoded_ids)
    qed
    with i q show ?thesis by blast
  qed
  from e m show ?thesis by blast
qed

theorem buildSearchQuery_ids_override_witness:
  "truthy (get_prop ids_params ''ids'')
   \<and> get_prop only_ids_params ''ids'' = get_prop ids_params ''ids''
   \<and> buildSearchQuery hex24 hex_lower only_ids_params = buildSearchQuery hex24 hex_lower ids_params
   \<and> buildSearchQuery hex24 hex_lower ids_params
       = Inr [(''$or'', OrOf [(''_id'', OpIn [BOid ''507f1f77bcf86cd799439011'']),
                              (''_id'', OpIn [BNum (Fin 10006546)])])]
   \<and> matches literal_regex
        [(''$or'', OrOf [(''_id'', OpIn [BOid ''507f1f77bcf86cd799439011'']),
                         (''_id'', OpIn [BNum (Fin 10006546)])])] porto_listing"
proof -
  have t: "truthy (get_prop ids_params ''ids'')"
    by (simp add: ids_params_def get_prop_def)
  have s: "get_prop only_ids_params ''ids'' = get_prop ids_params ''ids''"
    by (simp add: ids_params_def only_ids_params_def get_prop_def)
  have q: "buildSearchQuery hex24 hex_lower ids_params
             = Inr [(''$or'', OrOf [(''_id'', OpIn [BOid ''507f1f77bcf86cd799439011'']),
                                    (''_id'', OpIn [BNum (Fin 10006546)])])]"
    by (simp add: buildSearchQuery_def ids_params_def get_prop_def ids_of_def method_toString_def
        js_trim_def is_space_def hex24_def hex_lower_def lower_def is_digit_def digit_value_def
        isNaN_def radix_literal_def strip_sign_def decimal_literal_def exponent_ok_def
        parseInt_def hex_prefix_def digits_value_def round_double_small ids_query_def Let_def)
  have m: "matches literal_regex
             [(''$or'', OrOf [(''_id'', OpIn [BOid ''507f1f77bcf86cd799439011'']),
                              (''_id'', OpIn [BNum (Fin 10006546)])])] porto_listing"
    by (simp add: matches_def entry_holds_def holds_def porto_listing_def)
  from t s q m buildSearchQuery_ids_override [OF t s, of hex24 hex_lower] show ?thesis by blast
qed

text \<open>
  The claim as stated fails in three places. An empty \<open>ids\<close> array is truthy and compiles
  to the empty query, which selects every record (none of which is in the list). An
  \<open>ids\<close> field holding the empty string is falsy, so the other fields are compiled. And
  the identifiers \<open>12.5\<close> and \<open>1e3\<close> are numeric texts, read by \<open>parseInt\<close>: the records
  selected are those with \<open>_id\<close> 12 and 1, which are not in the list.
\<close>

theorem buildSearchQuery_ids_corner_cases:
  "buildSearchQuery hex24 hex_lower [(''ids'', Arr []), (''min_price'', Prim (BStr ''50''))] = Inr []
   \<and> matches literal_regex [] porto_listing
   \<and> buildSearchQuery hex24 hex_lower
        [(''ids'', Prim (BStr [])), (''min_price'', Prim (BStr ''50''))]
       = Inr [(''price'', Cond (OpRange (Some (Fin 50)) None))]
   \<and> buildSearchQuery hex24 hex_lower [(''ids'', Prim (BStr ''12.5,1e3''))]
       = Inr [(''_id'', Cond (OpIn [BNum (Fin 12), BNum (Fin 1)]))]
   \<and> matches literal_regex [(''_id'', Cond (OpIn [BNum (Fin 12), BNum (Fin 1)]))]
        [(''_id'', BNum (Fin 12))]"
  by (simp add: buildSearchQuery_def get_prop_def ids_of_def ids_query_def matches_def Let_def
      put_if_def parseInt_of_def parseInt_def strip_sign_def hex_prefix_def is_space_def
      is_digit_def digit_value_def digits_value_def is_true_text_def round_double_small
      method_toString_def js_trim_def hex24_def isNaN_def radix_literal_def decimal_literal_def
      exponent_ok_def entry_holds_def holds_def)

text \<open>
  Claim C5, as the code has it. For a truthy \<open>location\<close>, the lexical query (compiled
  when no \<open>ids\<close> are given) holds the \<open>$or\<close> of one case-insensitive regular expression
  over \<open>address.neighbourhood\<close>, \<open>address.market\<close> and \<open>address.country\<close>, so a selected
  record matches it in at least one of the three fields; the vector index filter holds
  \<open>address.market: {$eq: location}\<close>, so a selected record has exactly that market.
\<close>

theorem location_filter_semantics:
  assumes "truthy (get_prop params ''location'')"
  shows "(\<not> truthy (get_prop params ''ids'') \<longrightarrow>
            (\<exists>q. buildSearchQuery isValid newObjectId params = Inr q
               \<and> map_of q ''$or''
                   = Some (OrOf [(''address.neighbourhood'', OpRegex (get_prop params ''location'') ''i''),
                                 (''address.market'', OpRegex (get_prop params ''location'') ''i''),
                                 (''address.country'', OpRegex (get_prop params ''location'') ''i'')])
               \<and> (\<forall>ext doc. matches ext q doc \<longrightarrow>
                     ext ''address.neighbourhood'' (OpRegex (get_prop params ''location'') ''i'') doc
                     \<or> ext ''address.market'' (OpRegex (get_prop params ''location'') ''i'') doc
                     \<or> ext ''address.country'' (OpRegex (get_prop params ''location'') ''i'') doc)))
         \<and> map_of (buildVectorSearchFilter (Some params)) ''address.market''
             = Some (Cond (OpEq (get_prop params ''location'')))
         \<and> (\<forall>ext doc. matches ext (buildVectorSearchFilter (Some params)) doc \<longrightarrow>
               field_is doc ''address.market'' (get_prop params ''location''))"
proof -
  let ?loc = "get_prop params ''location''"
  let ?or = "OrOf [(''address.neighbourhood'', OpRegex ?loc ''i''),
                   (''address.market'', OpRegex ?loc ''i''),
                   (''address.country'', OpRegex ?loc ''i'')]"
  have lex: "\<exists>q. buildSearchQuery isValid newObjectId params = Inr q \<and> map_of q ''$or'' = Some ?or
               \<and> (\<forall>ext doc. matches ext q doc \<longrightarrow>
                     ext ''address.neighbourhood'' (OpRegex ?loc ''i'') doc
                     \<or> ext ''address.market'' (OpRegex ?loc ''i'') doc
                     \<or> ext ''address.country'' (OpRegex ?loc ''i'') doc)"
    if n: "\<not> truthy (get_prop params ''ids'')"
  proof -
    from location_or [OF assms n] obtain q where
      q: "buildSearchQuery isValid newObjectId params = Inr q" and o: "map_of q ''$or'' = Some ?or"
      by blast
    have "ext ''address.neighbourhood'' (OpRegex ?loc ''i'') doc
            \<or> ext ''address.market'' (OpRegex ?loc ''i'') doc
            \<or> ext ''address.country'' (OpRegex ?loc ''i'') doc"
      if "matches ext q doc" for ext doc
      using matches_entry [OF o that] by (simp add: entry_holds_def holds_def)
    with q o show ?thesis by blast
  qed
  have vm: "map_of (buildVectorSearchFilter (Some params)) ''address.market'' = Some (Cond (OpEq ?loc))"
    using assms by (rule location_market)
  have vs: "field_is doc ''address.market'' ?loc"
    if "matches ext (buildVectorSearchFilter (Some params)) doc" for ext doc
    using matches_entry [OF vm that] by (simp add: entry_holds_def holds_def)
  from lex vm vs show ?thesis by blast
qed

theorem location_filter_semantics_witness:
  "truthy (get_prop porto_params ''location'') \<and> \<not> truthy (get_prop porto_params ''ids'')
   \<and> buildSearchQuery hex24 hex_lower porto_params = Inr [(''$or'', porto_or)]
   \<and> matches literal_regex [(''$or'', porto_or)] porto_listing
   \<and> map_of (buildVectorSearchFilter (Some porto_params)) ''address.market''
       = Some (Cond (OpEq (Prim (BStr ''porto''))))"
proof -
  have t: "truthy (get_prop porto_params ''location'')"
    and n: "\<not> truthy (get_prop porto_params ''ids'')"
    and l: "get_prop porto_params ''location'' = Prim (BStr ''porto'')"
    by (simp_all add: porto_params_def get_prop_def)
  have q: "buildSearchQuery hex24 hex_lower porto_params = Inr [(''$or'', porto_or)]"
    by (simp add: buildSearchQuery_def porto_params_def porto_or_def get_prop_def put_if_def
        is_true_text_def Let_def)
  have m: "matches literal_regex [(''$or'', porto_or)] porto_listing"
    by (simp add: matches_def entry_holds_def holds_def porto_or_def porto_listing_def
        literal_regex_def lower_def)
  from t n q m location_filter_semantics [OF t, of hex24] l show ?thesis by simp
qed

text \<open>
  The claim as stated fails for the vector index filter: the listing in the market
  \<open>Porto\<close> is selected by the lexical query for the location \<open>porto\<close> and rejected by the
  vector filter, which asks for the market \<open>porto\<close> itself and looks at no other field.
\<close>

theorem vector_filter_location_is_exact_market:
  "buildVectorSearchFilter (Some porto_params)
     = [(''address.market'', Cond (OpEq (Prim (BStr ''porto''))))]
   \<and> \<not> matches literal_regex (buildVectorSearchFilter (Some porto_params)) porto_listing
   \<and> buildSearchQuery hex24 hex_lower porto_params = Inr [(''$or'', porto_or)]
   \<and> matches literal_regex [(''$or'', porto_or)] porto_listing"
  by (simp add: buildVectorSearchFilter_def buildSearchQuery_def porto_params_def porto_or_def
      get_prop_def put_if_def is_true_text_def Let_def matches_def entry_holds_def holds_def
      field_is_def porto_listing_def literal_regex_def lower_def)

end
